theory Spec2Isabelle
  imports Complex_Main
begin

section \<open>JavaScript numbers\<close>

text \<open>
  Every number of the program is a JavaScript Number. The model keeps the three special
  values that the program can produce and that its comparisons treat specially, and
  takes a finite number as the real it denotes: \<open>Num r\<close>. Division by zero, the
  infinities and NaN are modelled with the results of ECMAScript's Number operations;
  the sign of zero is not. On finite numbers the operations of this section give the
  exact result: they leave out the rounding of a result to 53 bits, which the
  operations of the section on binary64 arithmetic add.
\<close>

datatype jsnum = Num real | PInf | NInf | NaN

fun js_neg :: "jsnum \<Rightarrow> jsnum" where
  "js_neg (Num a) = Num (- a)"
| "js_neg PInf = NInf"
| "js_neg NInf = PInf"
| "js_neg NaN = NaN"

fun js_add :: "jsnum \<Rightarrow> jsnum \<Rightarrow> jsnum" where
  "js_add NaN _ = NaN"
| "js_add _ NaN = NaN"
| "js_add (Num a) (Num b) = Num (a + b)"
| "js_add PInf NInf = NaN"
| "js_add NInf PInf = NaN"
| "js_add PInf _ = PInf"
| "js_add NInf _ = NInf"
| "js_add (Num a) PInf = PInf"
| "js_add (Num a) NInf = NInf"

definition js_sub :: "jsnum \<Rightarrow> jsnum \<Rightarrow> jsnum" where
  "js_sub a b = js_add a (js_neg b)"

text \<open>The sign of a number that is not NaN: \<open>-1\<close>, \<open>0\<close> or \<open>1\<close>.\<close>

fun js_sgn :: "jsnum \<Rightarrow> real" where
  "js_sgn (Num a) = sgn a"
| "js_sgn PInf = 1"
| "js_sgn NInf = - 1"
| "js_sgn NaN = 0"

definition signed_inf :: "real \<Rightarrow> jsnum" where
  "signed_inf s = (if s = 0 then NaN else if 0 < s then PInf else NInf)"

fun js_mul :: "jsnum \<Rightarrow> jsnum \<Rightarrow> jsnum" where
  "js_mul NaN _ = NaN"
| "js_mul _ NaN = NaN"
| "js_mul (Num a) (Num b) = Num (a * b)"
| "js_mul a b = signed_inf (js_sgn a * js_sgn b)"

fun js_div :: "jsnum \<Rightarrow> jsnum \<Rightarrow> jsnum" where
  "js_div NaN _ = NaN"
| "js_div _ NaN = NaN"
| "js_div (Num a) (Num b) = (if b = 0 then signed_inf (sgn a) else Num (a / b))"
| "js_div (Num a) _ = Num 0"
| "js_div a (Num b) = signed_inf (js_sgn a * (if b < 0 then - 1 else 1))"
| "js_div _ _ = NaN"

fun js_floor :: "jsnum \<Rightarrow> jsnum" where
  "js_floor (Num a) = Num (of_int \<lfloor>a\<rfloor>)"
| "js_floor x = x"

fun js_abs :: "jsnum \<Rightarrow> jsnum" where
  "js_abs (Num a) = Num \<bar>a\<bar>"
| "js_abs NaN = NaN"
| "js_abs _ = PInf"

text \<open>Comparisons: every comparison with NaN is false.\<close>

fun js_lt :: "jsnum \<Rightarrow> jsnum \<Rightarrow> bool" where
  "js_lt NaN _ = False"
| "js_lt _ NaN = False"
| "js_lt (Num a) (Num b) = (a < b)"
| "js_lt PInf _ = False"
| "js_lt _ PInf = True"
| "js_lt NInf NInf = False"
| "js_lt NInf _ = True"
| "js_lt _ NInf = False"

definition js_gt :: "jsnum \<Rightarrow> jsnum \<Rightarrow> bool" where
  "js_gt a b = js_lt b a"

definition js_le :: "jsnum \<Rightarrow> jsnum \<Rightarrow> bool" where
  "js_le a b = (a \<noteq> NaN \<and> b \<noteq> NaN \<and> \<not> js_lt b a)"

definition js_ge :: "jsnum \<Rightarrow> jsnum \<Rightarrow> bool" where
  "js_ge a b = js_le b a"

text \<open>\<open>Math.max(a, b)\<close>: NaN if either argument is.\<close>

definition js_max :: "jsnum \<Rightarrow> jsnum \<Rightarrow> jsnum" where
  "js_max a b = (if a = NaN \<or> b = NaN then NaN else if js_lt a b then b else a)"

definition js_min :: "jsnum \<Rightarrow> jsnum \<Rightarrow> jsnum" where
  "js_min a b = (if a = NaN \<or> b = NaN then NaN else if js_lt b a then b else a)"

text \<open>Truthiness of a number (\<open>x || d\<close>, \<open>x ? a : b\<close>): zero and NaN are falsy.\<close>

definition truthy :: "jsnum \<Rightarrow> bool" where
  "truthy x = (x \<noteq> Num 0 \<and> x \<noteq> NaN)"

definition js_or :: "jsnum \<Rightarrow> jsnum \<Rightarrow> jsnum" where
  "js_or x d = (if truthy x then x else d)"

definition isNaN :: "jsnum \<Rightarrow> bool" where
  "isNaN x = (x = NaN)"

fun isInteger :: "jsnum \<Rightarrow> bool" where
  "isInteger (Num a) = (of_int \<lfloor>a\<rfloor> = a)"
| "isInteger _ = False"

fun is_finite :: "jsnum \<Rightarrow> bool" where
  "is_finite (Num a) = True"
| "is_finite _ = False"

text \<open>
  \<open>parseFloat(x.toFixed(1))\<close>: \<open>toFixed\<close> prints NaN and the infinities by name and a
  number of magnitude \<open>10^21\<close> or more as \<open>ToString\<close> does, and \<open>parseFloat\<close> reads each
  of them back; below that it prints the nearest number with one decimal, the larger
  of two that are equally near, working on the magnitude and putting the sign in front.
\<close>

definition round1 :: "real \<Rightarrow> real" where
  "round1 x = of_int \<lfloor>x * 10 + 1 / 2\<rfloor> / 10"

fun toFixed1 :: "jsnum \<Rightarrow> jsnum" where
  "toFixed1 (Num a) =
     (if 10 ^ 21 \<le> \<bar>a\<bar> then Num a
      else if a < 0 then Num (- round1 (- a)) else Num (round1 a))"
| "toFixed1 x = x"

text \<open>
  \<open>Math.pow\<close> (Number::exponentiate). Without a signed zero, a zero base with a negative
  exponent gives \<open>+Infinity\<close>.
\<close>

definition odd_integer :: "real \<Rightarrow> bool" where
  "odd_integer y = (of_int \<lfloor>y\<rfloor> = y \<and> odd \<lfloor>y\<rfloor>)"

fun js_pow :: "jsnum \<Rightarrow> jsnum \<Rightarrow> jsnum" where
  "js_pow _ NaN = NaN"
| "js_pow b (Num y) =
     (if y = 0 then Num 1
      else case b of
        NaN \<Rightarrow> NaN
      | PInf \<Rightarrow> (if 0 < y then PInf else Num 0)
      | NInf \<Rightarrow> (if 0 < y then (if odd_integer y then NInf else PInf) else Num 0)
      | Num x \<Rightarrow>
          (if x = 0 then (if 0 < y then Num 0 else PInf)
           else if 0 < x then Num (x powr y)
           else if of_int \<lfloor>y\<rfloor> = y then Num ((if odd \<lfloor>y\<rfloor> then - 1 else 1) * ((- x) powr y))
           else NaN))"
| "js_pow NaN _ = NaN"
| "js_pow (Num x) PInf = (if 1 < \<bar>x\<bar> then PInf else if \<bar>x\<bar> = 1 then NaN else Num 0)"
| "js_pow (Num x) NInf = (if 1 < \<bar>x\<bar> then Num 0 else if \<bar>x\<bar> = 1 then NaN else PInf)"
| "js_pow PInf PInf = PInf"
| "js_pow NInf PInf = PInf"
| "js_pow PInf NInf = Num 0"
| "js_pow NInf NInf = Num 0"


text \<open>Strict equality of numbers: NaN equals nothing, itself included.\<close>

definition js_eq :: "jsnum \<Rightarrow> jsnum \<Rightarrow> bool" where
  "js_eq a b = (a \<noteq> NaN \<and> a = b)"

section \<open>Configuration (\<open>CONFIG\<close>)\<close>

definition MIN_YEAR :: jsnum where "MIN_YEAR = Num 2020"
definition MAX_YEAR :: jsnum where "MAX_YEAR = Num 2050"
definition MIN_FOUNDER_SHARES :: jsnum where "MIN_FOUNDER_SHARES = Num 1"
definition MAX_FOUNDER_SHARES :: jsnum where "MAX_FOUNDER_SHARES = Num 1000000000"
definition MIN_VALUATION :: jsnum where "MIN_VALUATION = Num 1"
definition MAX_VALUATION :: jsnum where "MAX_VALUATION = Num 1000000000000"
definition MIN_INVESTMENT :: jsnum where "MIN_INVESTMENT = Num 1"
definition MAX_INVESTMENT :: jsnum where "MAX_INVESTMENT = Num 1000000000000"

definition CURRENCIES :: "string list" where
  "CURRENCIES = [''GBP'', ''USD'', ''EUR'']"

definition ROUND_TYPES :: "string list" where
  "ROUND_TYPES = [''Bootstrap'', ''Pre-Seed'', ''Seed'', ''Series A'', ''Series B'',
     ''Series C'', ''Series D'', ''Growth'', ''SAFE'', ''Convertible'']"

text \<open>
  \<open>CONFIG.CURRENCIES\<close> is an object literal, and \<open>CONFIG.CURRENCIES[value]\<close> also finds
  what the object inherits from \<open>Object.prototype\<close>: each of these names gives a truthy
  value.
\<close>

definition object_prototype_keys :: "string list" where
  "object_prototype_keys = [''constructor'', ''hasOwnProperty'', ''isPrototypeOf'',
     ''propertyIsEnumerable'', ''toLocaleString'', ''toString'', ''valueOf'', ''__proto__'',
     ''__defineGetter__'', ''__defineSetter__'', ''__lookupGetter__'', ''__lookupSetter__'']"

section \<open>Data model (\<open>models.js\<close>)\<close>

text \<open>
  A field that holds a number is a \<open>jsnum\<close>, a field that holds a string a \<open>string\<close>;
  a field that can hold \<open>null\<close> or \<open>undefined\<close> is an option. A round's \<open>type\<close> is one
  of these: \<open>CONFIG.DEFAULTS.ROUND.TYPE\<close> does not exist, so the constructor leaves
  \<open>undefined\<close> there when it is given no type. Field names of the source that occur in
  several classes carry a suffix in all but one of them.
\<close>

record FundingRound =
  id_r :: "jsnum option"
  type :: "string option"
  year :: jsnum
  preMoneyValuation :: jsnum
  investment :: jsnum
  revenue :: jsnum
  liquidationPref :: string
  antiDilution :: string
  discountRate :: jsnum
  postMoneyValuation :: "jsnum option"
  equityPercentage :: "jsnum option"
  sharesIssued :: "jsnum option"
  ownershipPercent :: "jsnum option"

text \<open>
  A company, over the representation \<open>'r\<close> of its rounds: the rounds themselves where
  the company is only read, their addresses where objects are created and assigned to.
\<close>

record 'r Company =
  companyName :: string
  currency :: string
  founderShares :: jsnum
  optionPoolPercent :: jsnum
  optionPoolTopUp :: bool
  useRevenueMultiples :: bool
  exitYear :: jsnum
  exitValuation :: jsnum
  exitMultiple :: jsnum
  rounds :: "'r list"

record LiquidationEntry =
  round_e :: "string option"
  investment_e :: jsnum
  preference :: string
  shares :: jsnum
  year_e :: jsnum
  ownershipPercent_e :: jsnum

record CapTableStage =
  stage :: string
  year_st :: jsnum
  totalShares :: jsnum
  founderShares_st :: jsnum
  optionPoolShares :: jsnum
  investorShares :: jsnum
  newInvestorShares :: jsnum
  round_st :: "FundingRound option"
  liquidationStack :: "LiquidationEntry list"
  founderOwnership :: jsnum
  optionPoolOwnership :: jsnum
  investorOwnership :: jsnum
  newInvestorOwnership :: jsnum
  preMoneyValuation_st :: jsnum
  postMoneyValuation_st :: jsnum
  investment_st :: jsnum
  revenue_st :: jsnum
  revenueMultiple :: jsnum

section \<open>Errors (\<open>errors.js\<close>)\<close>

text \<open>
  The three error classes of the engine. A message is kept as its template and the
  values put into it, not as the text; the data snapshot of a CalculationError and of a
  DataError is left out.
\<close>

datatype message =
    IsRequired string
  | MustBeValidNumber string
  | MustBeAtLeast string jsnum
  | MustBeNoMoreThan string jsnum
  | MustBeWholeNumber string
  | InvalidCurrency string
  | InvalidRoundType string
  | ValidationErrors nat
  | ValidationErrorsIn nat "string option"
  | OwnershipTotal jsnum
  | FailedToProcessRound "string option" message
  | FailedEvolution message
  | EvolutionIsEmpty
  | FailedReturns message
  | RoundIndexNotFound int
  | FailedSensitivity message

datatype jsval = Undefined | Null | Str string | Number jsnum

datatype error =
    ValidationError string message payload
  | CalculationError string message
  | DataError string message
and payload = NoValue | Value jsval | Errors "error list"

fun message_of :: "error \<Rightarrow> message" where
  "message_of (ValidationError f m v) = m"
| "message_of (CalculationError operation m) = m"
| "message_of (DataError dataType m) = m"

section \<open>Validation (\<open>Validator\<close>)\<close>

definition validateRequired :: "jsval \<Rightarrow> string \<Rightarrow> error + unit" where
  "validateRequired v fieldName =
     (if v = Null \<or> v = Undefined \<or> v = Str []
      then Inl (ValidationError fieldName (IsRequired fieldName) NoValue)
      else Inr ())"

text \<open>
  \<open>validateNumber\<close> on a value that is a number: the branch that parses a string is
  not taken.
\<close>

definition validateNumber ::
  "jsnum \<Rightarrow> string \<Rightarrow> jsnum option \<Rightarrow> jsnum option \<Rightarrow> error + jsnum" where
  "validateNumber v fieldName mn mx =
     (case validateRequired (Number v) fieldName of
        Inl e \<Rightarrow> Inl e
      | Inr _ \<Rightarrow>
          if isNaN v
            then Inl (ValidationError fieldName (MustBeValidNumber fieldName) (Value (Number v)))
          else if mn \<noteq> None \<and> js_lt v (the mn)
            then Inl (ValidationError fieldName (MustBeAtLeast fieldName (the mn)) (Value (Number v)))
          else if mx \<noteq> None \<and> js_gt v (the mx)
            then Inl (ValidationError fieldName (MustBeNoMoreThan fieldName (the mx)) (Value (Number v)))
          else Inr v)"

definition validateInteger ::
  "jsnum \<Rightarrow> string \<Rightarrow> jsnum option \<Rightarrow> jsnum option \<Rightarrow> error + jsnum" where
  "validateInteger v fieldName mn mx =
     (case validateNumber v fieldName mn mx of
        Inl e \<Rightarrow> Inl e
      | Inr num \<Rightarrow>
          if \<not> isInteger num
          then Inl (ValidationError fieldName (MustBeWholeNumber fieldName) (Value (Number v)))
          else Inr num)"

definition validateYear :: "jsnum \<Rightarrow> string \<Rightarrow> error + jsnum" where
  "validateYear v fieldName = validateInteger v fieldName (Some MIN_YEAR) (Some MAX_YEAR)"

definition validatePercentage :: "jsnum \<Rightarrow> string \<Rightarrow> error + jsnum" where
  "validatePercentage v fieldName = validateNumber v fieldName (Some (Num 0)) (Some (Num 100))"

definition validateCurrency :: "string \<Rightarrow> string \<Rightarrow> error + string" where
  "validateCurrency v fieldName =
     (case validateRequired (Str v) fieldName of
        Inl e \<Rightarrow> Inl e
      | Inr _ \<Rightarrow>
          if \<not> (v \<in> set CURRENCIES \<or> v \<in> set object_prototype_keys)
          then Inl (ValidationError fieldName (InvalidCurrency v) (Value (Str v)))
          else Inr v)"

definition validateRoundType :: "string option \<Rightarrow> string \<Rightarrow> error + string" where
  "validateRoundType v fieldName =
     (case v of
        None \<Rightarrow> Inl (ValidationError fieldName (IsRequired fieldName) NoValue)
      | Some s \<Rightarrow>
          (case validateRequired (Str s) fieldName of
             Inl e \<Rightarrow> Inl e
           | Inr _ \<Rightarrow>
               if s \<notin> set ROUND_TYPES
               then Inl (ValidationError fieldName (InvalidRoundType s) (Value (Str s)))
               else Inr s))"

text \<open>\<open>try { ... } catch (e) { errors.push(e); }\<close>: what one check adds to \<open>errors\<close>.\<close>

definition caught :: "error + 'a \<Rightarrow> error list" where
  "caught r = (case r of Inl e \<Rightarrow> [e] | Inr _ \<Rightarrow> [])"

definition companyErrors :: "'r Company \<Rightarrow> error list" where
  "companyErrors c =
     caught (validateRequired (Str (companyName c)) ''Company Name'')
     @ caught (validateInteger (founderShares c) ''Founder Shares''
         (Some MIN_FOUNDER_SHARES) (Some MAX_FOUNDER_SHARES))
     @ caught (validatePercentage (optionPoolPercent c) ''Option Pool Percentage'')
     @ caught (validateCurrency (currency c) ''Currency'')
     @ caught (validateYear (exitYear c) ''Exit Year'')
     @ caught (validateNumber (exitValuation c) ''Exit Valuation''
         (Some MIN_VALUATION) (Some MAX_VALUATION))"

definition validateCompanyData :: "'r Company \<Rightarrow> error + unit" where
  "validateCompanyData c =
     (let errors = companyErrors c in
      if 0 < length errors
      then Inl (ValidationError ''Company Data'' (ValidationErrors (length errors)) (Errors errors))
      else Inr ())"

definition roundErrors :: "FundingRound \<Rightarrow> error list" where
  "roundErrors r =
     caught (validateRoundType (type r) ''Round Type'')
     @ caught (validateYear (year r) ''Round Year'')
     @ caught (validateNumber (preMoneyValuation r) ''Pre-Money Valuation''
         (Some MIN_VALUATION) (Some MAX_VALUATION))
     @ caught (validateNumber (investment r) ''Investment Amount''
         (Some MIN_INVESTMENT) (Some MAX_INVESTMENT))
     @ caught (validateNumber (revenue r) ''Revenue'' (Some (Num 0)) None)"

definition validateFundingRound :: "FundingRound \<Rightarrow> error + unit" where
  "validateFundingRound r =
     (let errors = roundErrors r in
      if 0 < length errors
      then Inl (ValidationError ''Funding Round'' (ValidationErrorsIn (length errors) (type r))
             (Errors errors))
      else Inr ())"

text \<open>The decimal digits of a natural number, for the field name \<open>Round n\<close>.\<close>

function show_nat :: "nat \<Rightarrow> string" where
  "show_nat n =
     (if n < 10 then [''0123456789'' ! n]
      else show_nat (n div 10) @ [''0123456789'' ! (n mod 10)])"
  by pat_completeness auto
termination
  by (relation "measure (\<lambda>n. n)") auto

text \<open>
  \<open>Company.validate\<close>: the company's own fields first, then the rounds in the order of
  \<open>this.rounds\<close>; the callback of \<open>forEach\<close> throws at the first round that fails.
\<close>

fun validateRounds :: "nat \<Rightarrow> FundingRound list \<Rightarrow> error + unit" where
  "validateRounds index [] = Inr ()"
| "validateRounds index (r # rs) =
     (case validateFundingRound r of
        Inl e \<Rightarrow> Inl (ValidationError (''Round '' @ show_nat (index + 1)) (message_of e) NoValue)
      | Inr _ \<Rightarrow> validateRounds (index + 1) rs)"

definition validate :: "FundingRound Company \<Rightarrow> error + unit" where
  "validate c =
     (case validateCompanyData c of
        Inl e \<Rightarrow> Inl e
      | Inr _ \<Rightarrow> validateRounds 0 (rounds c))"

section \<open>Utilities (\<open>utils.js\<close>)\<close>

definition calculatePercentage :: "jsnum \<Rightarrow> jsnum \<Rightarrow> jsnum" where
  "calculatePercentage part whole =
     (if whole = Num 0 then Num 0
      else toFixed1 (js_mul (js_div part whole) (Num 100)))"

definition calculateIRR :: "jsnum \<Rightarrow> jsnum \<Rightarrow> jsnum \<Rightarrow> jsnum" where
  "calculateIRR investment' returnAmount years =
     (if js_le years (Num 0) \<or> js_le investment' (Num 0) then Num 0
      else let multiple = js_div returnAmount investment' in
        if js_le multiple (Num 0) then Num (- 100)
        else js_mul (js_sub (js_pow multiple (js_div (Num 1) years)) (Num 1)) (Num 100))"

definition yearsBetween :: "jsnum \<Rightarrow> jsnum \<Rightarrow> jsnum" where
  "yearsBetween startYear endYear = js_max (Num 0) (js_sub endYear startYear)"

text \<open>
  \<open>DataUtils.sortBy(array, 'year', true)\<close>. The key of an element is
  \<open>getNestedProperty(a, 'year')\<close>, which is \<open>a.year || null\<close>; \<open>null\<close> compares as zero.
  The keys are numbers and never NaN, so the comparator orders them consistently, and
  \<open>Array.prototype.sort\<close> is stable: its result is that of inserting each element, from
  the last to the first, before the first element that it does not come after.
\<close>

definition yearKey :: "FundingRound \<Rightarrow> jsnum" where
  "yearKey r = (if truthy (year r) then year r else Num 0)"

definition compareYear :: "FundingRound \<Rightarrow> FundingRound \<Rightarrow> int" where
  "compareYear a b =
     (if js_lt (yearKey a) (yearKey b) then - 1
      else if js_gt (yearKey a) (yearKey b) then 1
      else 0)"

fun insertSorted :: "('a \<Rightarrow> 'a \<Rightarrow> int) \<Rightarrow> 'a \<Rightarrow> 'a list \<Rightarrow> 'a list" where
  "insertSorted cmp x [] = [x]"
| "insertSorted cmp x (y # ys) =
     (if cmp x y \<le> 0 then x # y # ys else y # insertSorted cmp x ys)"

definition sortBy :: "('a \<Rightarrow> 'a \<Rightarrow> int) \<Rightarrow> 'a list \<Rightarrow> 'a list" where
  "sortBy cmp xs = foldr (insertSorted cmp) xs []"

section \<open>Model methods (\<open>models.js\<close>)\<close>

definition getRoundsByYear :: "FundingRound Company \<Rightarrow> FundingRound list" where
  "getRoundsByYear c = sortBy compareYear (rounds c)"

definition getInitialOptionPoolShares :: "'r Company \<Rightarrow> jsnum" where
  "getInitialOptionPoolShares c =
     js_floor (js_div (js_mul (founderShares c) (optionPoolPercent c))
       (js_sub (Num 100) (optionPoolPercent c)))"

definition getRevenueMultiple :: "FundingRound \<Rightarrow> jsnum option" where
  "getRevenueMultiple r =
     (if js_le (revenue r) (Num 0) then None
      else Some (js_div (preMoneyValuation r) (revenue r)))"

text \<open>
  The constructor of \<open>CapTableStage\<close>, on the fields it is given. A field that the
  caller leaves out is \<open>undefined\<close> and gets the constructor's default, which is also
  what the default itself would get; the callers below pass the default for it, and the
  empty string for a stage name that is \<open>undefined\<close>. The first argument is the current
  year.
\<close>

definition string_of :: "string option \<Rightarrow> string" where
  "string_of s = (case s of None \<Rightarrow> [] | Some t \<Rightarrow> t)"

definition new_CapTableStage :: "int \<Rightarrow> CapTableStage \<Rightarrow> CapTableStage" where
  "new_CapTableStage now d =
     \<lparr> stage = (if stage d = [] then ''Incorporation'' else stage d),
       year_st = js_or (year_st d) (Num (of_int now)),
       totalShares = js_or (totalShares d) (Num 0),
       founderShares_st = js_or (founderShares_st d) (Num 0),
       optionPoolShares = js_or (optionPoolShares d) (Num 0),
       investorShares = js_or (investorShares d) (Num 0),
       newInvestorShares = js_or (newInvestorShares d) (Num 0),
       round_st = round_st d,
       liquidationStack = liquidationStack d,
       founderOwnership = js_or (founderOwnership d) (Num 0),
       optionPoolOwnership = js_or (optionPoolOwnership d) (Num 0),
       investorOwnership = js_or (investorOwnership d) (Num 0),
       newInvestorOwnership = js_or (newInvestorOwnership d) (Num 0),
       preMoneyValuation_st = js_or (preMoneyValuation_st d) (Num 0),
       postMoneyValuation_st = js_or (postMoneyValuation_st d) (Num 0),
       investment_st = js_or (investment_st d) (Num 0),
       revenue_st = js_or (revenue_st d) (Num 0),
       revenueMultiple = js_or (revenueMultiple d) (Num 0) \<rparr>"

definition calculateOwnership :: "CapTableStage \<Rightarrow> CapTableStage" where
  "calculateOwnership s =
     (if totalShares s = Num 0 then s
      else s\<lparr> founderOwnership := calculatePercentage (founderShares_st s) (totalShares s),
              optionPoolOwnership := calculatePercentage (optionPoolShares s) (totalShares s),
              investorOwnership := calculatePercentage (investorShares s) (totalShares s),
              newInvestorOwnership := calculatePercentage (newInvestorShares s) (totalShares s) \<rparr>)"

definition ownershipTotal :: "CapTableStage \<Rightarrow> jsnum" where
  "ownershipTotal s =
     js_add (js_add (founderOwnership s) (optionPoolOwnership s)) (investorOwnership s)"

definition tolerance :: jsnum where
  "tolerance = Num (1 / 10)"

definition validateOwnership :: "CapTableStage \<Rightarrow> error + unit" where
  "validateOwnership s =
     (let total = ownershipTotal s in
      if js_gt (js_abs (js_sub total (Num 100))) tolerance
      then Inl (CalculationError ''ownership_validation'' (OwnershipTotal total))
      else Inr ())"

section \<open>The evolution engine (\<open>CapTableCalculator\<close>)\<close>

text \<open>
  The engine reads the company and its rounds and builds new objects; it assigns to no
  field of the company or of a round. Each function is therefore a function of the
  values it reads, and an exception is the \<open>Inl\<close> result.
\<close>

text \<open>
  The object that \<open>_createIncorporationStage\<close> passes to the constructor, and the one
  that \<open>_processRound\<close> passes, with the local variables of the function that compute
  its fields.
\<close>

definition incorporationStageData :: "int \<Rightarrow> jsnum \<Rightarrow> jsnum \<Rightarrow> jsnum option \<Rightarrow> CapTableStage" where
  "incorporationStageData now founderShares' optionPoolShares' firstRoundYear =
     (let totalShares' = js_add founderShares' optionPoolShares';
          year' = (case firstRoundYear of
                     None \<Rightarrow> Num (of_int now)
                   | Some y \<Rightarrow> if truthy y then js_sub y (Num 1) else Num (of_int now))
      in \<lparr> stage = ''Incorporation'', year_st = year', totalShares = totalShares',
           founderShares_st = founderShares', optionPoolShares = optionPoolShares',
           investorShares = Num 0, newInvestorShares = Num 0, round_st = None,
           liquidationStack = [],
           founderOwnership = Num 0, optionPoolOwnership = Num 0, investorOwnership = Num 0,
           newInvestorOwnership = Num 0, preMoneyValuation_st = Num 0,
           postMoneyValuation_st = Num 0, investment_st = Num 0, revenue_st = Num 0,
           revenueMultiple = Num 0 \<rparr>)"

definition createIncorporationStage ::
  "int \<Rightarrow> jsnum \<Rightarrow> jsnum \<Rightarrow> jsnum option \<Rightarrow> error + CapTableStage" where
  "createIncorporationStage now founderShares' optionPoolShares' firstRoundYear =
     (let stage' = calculateOwnership (new_CapTableStage now
            (incorporationStageData now founderShares' optionPoolShares' firstRoundYear))
      in (case validateOwnership stage' of
            Inl e \<Rightarrow> Inl e
          | Inr _ \<Rightarrow> Inr stage'))"

definition roundStageData ::
  "FundingRound \<Rightarrow> jsnum \<Rightarrow> jsnum \<Rightarrow> jsnum \<Rightarrow> FundingRound Company \<Rightarrow> CapTableStage
     \<Rightarrow> CapTableStage" where
  "roundStageData r founderShares' optionPoolShares0 totalInvestorShares c previousStage =
     (let postMoney = js_add (preMoneyValuation r) (investment r);
          investorOwnershipPercent = js_mul (js_div (investment r) postMoney) (Num 100);
          totalSharesBefore =
            js_add (js_add founderShares' optionPoolShares0) totalInvestorShares;
          newInvestorShares' = js_floor (js_div (js_mul totalSharesBefore investorOwnershipPercent)
            (js_sub (Num 100) investorOwnershipPercent));
          optionPoolTopUpShares =
            (if optionPoolTopUp c
             then js_max (Num 0)
               (js_sub (js_floor (js_div (js_mul (js_add totalSharesBefore newInvestorShares')
                   (optionPoolPercent c)) (Num 100))) optionPoolShares0)
             else Num 0);
          optionPoolShares' =
            (if optionPoolTopUp c then js_add optionPoolShares0 optionPoolTopUpShares
             else optionPoolShares0);
          newTotalInvestorShares = js_add totalInvestorShares newInvestorShares';
          totalSharesAfter =
            js_add (js_add totalSharesBefore newInvestorShares') optionPoolTopUpShares;
          liquidationStack' = liquidationStack previousStage @
            [\<lparr> round_e = type r, investment_e = investment r, preference = liquidationPref r,
               shares = newInvestorShares', year_e = year r,
               ownershipPercent_e = js_mul (js_div newInvestorShares' totalSharesAfter) (Num 100) \<rparr>]
      in \<lparr> stage = string_of (type r), year_st = year r, totalShares = totalSharesAfter,
           founderShares_st = founderShares', optionPoolShares = optionPoolShares',
           investorShares = newTotalInvestorShares, newInvestorShares = newInvestorShares',
           round_st = Some r, liquidationStack = liquidationStack',
           founderOwnership = Num 0, optionPoolOwnership = Num 0, investorOwnership = Num 0,
           newInvestorOwnership = Num 0, preMoneyValuation_st = preMoneyValuation r,
           postMoneyValuation_st = postMoney, investment_st = investment r,
           revenue_st = revenue r,
           revenueMultiple =
             (if js_gt (revenue r) (Num 0) then js_div postMoney (revenue r) else Num 0) \<rparr>)"

definition processRound ::
  "int \<Rightarrow> FundingRound \<Rightarrow> jsnum \<Rightarrow> jsnum \<Rightarrow> jsnum \<Rightarrow> FundingRound Company \<Rightarrow> CapTableStage
     \<Rightarrow> error + CapTableStage" where
  "processRound now r founderShares' optionPoolShares0 totalInvestorShares c previousStage =
     (let stage' = calculateOwnership (new_CapTableStage now
            (roundStageData r founderShares' optionPoolShares0 totalInvestorShares c previousStage))
      in (case validateOwnership stage' of
            Inl e \<Rightarrow> Inl (CalculationError ''round_processing''
                           (FailedToProcessRound (type r) (message_of e)))
          | Inr _ \<Rightarrow> Inr stage'))"

text \<open>
  The loop of \<open>calculateEvolution\<close> over the sorted rounds. \<open>founderShares\<close> is never
  assigned; \<open>optionPoolShares\<close> and \<open>totalInvestorShares\<close> are read back from the stage
  just built; the previous stage is the last element of \<open>evolution\<close>, which holds the
  incorporation stage before the loop starts.
\<close>

fun processRounds ::
  "int \<Rightarrow> FundingRound Company \<Rightarrow> jsnum \<Rightarrow> jsnum \<Rightarrow> jsnum \<Rightarrow> CapTableStage list
     \<Rightarrow> FundingRound list \<Rightarrow> error + CapTableStage list" where
  "processRounds now c fs ops tis evolution [] = Inr evolution"
| "processRounds now c fs ops tis evolution (r # rs) =
     (case processRound now r fs ops tis c (last evolution) of
        Inl e \<Rightarrow> Inl e
      | Inr stage' \<Rightarrow>
          processRounds now c fs (optionPoolShares stage') (investorShares stage')
            (evolution @ [stage']) rs)"

definition evolutionBody :: "int \<Rightarrow> FundingRound Company \<Rightarrow> error + CapTableStage list" where
  "evolutionBody now c =
     (case validate c of
        Inl e \<Rightarrow> Inl e
      | Inr _ \<Rightarrow>
          let rounds' = getRoundsByYear c;
              founderShares' = founderShares c;
              optionPoolShares' = getInitialOptionPoolShares c
          in (case createIncorporationStage now founderShares' optionPoolShares'
                     (case rounds' of [] \<Rightarrow> None | r # _ \<Rightarrow> Some (year r)) of
                Inl e \<Rightarrow> Inl e
              | Inr incorporationStage \<Rightarrow>
                  processRounds now c founderShares' optionPoolShares' (Num 0)
                    [incorporationStage] rounds'))"

definition calculateEvolution :: "int \<Rightarrow> FundingRound Company \<Rightarrow> error + CapTableStage list" where
  "calculateEvolution now c =
     (case evolutionBody now c of
        Inl e \<Rightarrow> Inl (CalculationError ''cap_table_evolution'' (FailedEvolution (message_of e)))
      | Inr evolution \<Rightarrow> Inr evolution)"

section \<open>The returns engine\<close>

record RoundReturn =
  round_rr :: "string option"
  year_rr :: jsnum
  investment_rr :: jsnum
  yearsHeld :: jsnum
  exitValue :: jsnum
  multipleOfMoney :: jsnum
  irr :: jsnum
  revenue_rr :: jsnum
  revenueMultiple_rr :: jsnum
  ownershipPercent_rr :: jsnum

record FinalOwnership =
  founders :: jsnum
  esop :: jsnum
  investors :: jsnum

record ReturnsAnalysis =
  exitValuation_ra :: jsnum
  exitYear_ra :: jsnum
  founderReturn :: jsnum
  esopReturn :: jsnum
  totalInvestorReturn :: jsnum
  roundReturns :: "RoundReturn list"
  liquidationWaterfall :: "jsval list"
  finalOwnership :: FinalOwnership

definition new_ReturnsAnalysis :: "int \<Rightarrow> ReturnsAnalysis \<Rightarrow> ReturnsAnalysis" where
  "new_ReturnsAnalysis now d =
     \<lparr> exitValuation_ra = js_or (exitValuation_ra d) (Num 0),
       exitYear_ra = js_or (exitYear_ra d) (Num (of_int now)),
       founderReturn = js_or (founderReturn d) (Num 0),
       esopReturn = js_or (esopReturn d) (Num 0),
       totalInvestorReturn = js_or (totalInvestorReturn d) (Num 0),
       roundReturns = roundReturns d,
       liquidationWaterfall = liquidationWaterfall d,
       finalOwnership = finalOwnership d \<rparr>"

text \<open>
  \<open>_calculateRoundReturns\<close>: one record for each round, in the order of
  \<open>company.rounds\<close>, that has an entry of its type and year in the liquidation stack;
  \<open>find\<close> takes the first such entry. Nothing in the body of the loop throws.
\<close>

definition roundReturn :: "FundingRound \<Rightarrow> LiquidationEntry \<Rightarrow> jsnum \<Rightarrow> jsnum \<Rightarrow> RoundReturn" where
  "roundReturn r roundEntry exitValuation' exitYear' =
     (let yearsHeld' = yearsBetween (year r) exitYear';
          investorReturn = js_mul (js_div (ownershipPercent_e roundEntry) (Num 100)) exitValuation'
      in \<lparr> round_rr = type r, year_rr = year r, investment_rr = investment r,
           yearsHeld = yearsHeld', exitValue = investorReturn,
           multipleOfMoney =
             (if js_gt (investment r) (Num 0) then js_div investorReturn (investment r) else Num 0),
           irr = calculateIRR (investment r) investorReturn yearsHeld',
           revenue_rr = revenue r,
           revenueMultiple_rr =
             (case getRevenueMultiple r of None \<Rightarrow> Num 0 | Some m \<Rightarrow> js_or m (Num 0)),
           ownershipPercent_rr = ownershipPercent_e roundEntry \<rparr>)"

fun calculateRoundReturns ::
  "FundingRound list \<Rightarrow> LiquidationEntry list \<Rightarrow> jsnum \<Rightarrow> jsnum \<Rightarrow> RoundReturn list" where
  "calculateRoundReturns [] stack exitValuation' exitYear' = []"
| "calculateRoundReturns (r # rs) stack exitValuation' exitYear' =
     (case List.find (\<lambda>entry. round_e entry = type r \<and> js_eq (year_e entry) (year r)) stack of
        None \<Rightarrow> calculateRoundReturns rs stack exitValuation' exitYear'
      | Some roundEntry \<Rightarrow>
          roundReturn r roundEntry exitValuation' exitYear'
            # calculateRoundReturns rs stack exitValuation' exitYear')"

text \<open>
  \<open>calculateReturns\<close>. The stage sequence is \<open>None\<close> when the caller passes \<open>null\<close> or
  \<open>undefined\<close>. The \<open>DataError\<close> is thrown inside the \<open>try\<close> block of the function, whose
  \<open>catch\<close> clause throws a \<open>CalculationError\<close> in its place.
\<close>

definition returnsBody ::
  "int \<Rightarrow> CapTableStage list option \<Rightarrow> FundingRound Company \<Rightarrow> error + ReturnsAnalysis" where
  "returnsBody now capTableEvolution c =
     (case capTableEvolution of
        None \<Rightarrow> Inl (DataError ''cap_table'' EvolutionIsEmpty)
      | Some evolution \<Rightarrow>
          if length evolution = 0 then Inl (DataError ''cap_table'' EvolutionIsEmpty)
          else
            let finalStage = last evolution;
                exitValuation' = exitValuation c;
                exitYear' = exitYear c
            in Inr (new_ReturnsAnalysis now
                 \<lparr> exitValuation_ra = exitValuation',
                   exitYear_ra = exitYear',
                   founderReturn =
                     js_mul (js_div (founderOwnership finalStage) (Num 100)) exitValuation',
                   esopReturn =
                     js_mul (js_div (optionPoolOwnership finalStage) (Num 100)) exitValuation',
                   totalInvestorReturn =
                     js_mul (js_div (investorOwnership finalStage) (Num 100)) exitValuation',
                   roundReturns = calculateRoundReturns (rounds c) (liquidationStack finalStage)
                     exitValuation' exitYear',
                   liquidationWaterfall = [],
                   finalOwnership =
                     \<lparr> founders = founderOwnership finalStage,
                       esop = optionPoolOwnership finalStage,
                       investors = investorOwnership finalStage \<rparr> \<rparr>))"

definition calculateReturns ::
  "int \<Rightarrow> CapTableStage list option \<Rightarrow> FundingRound Company \<Rightarrow> error + ReturnsAnalysis" where
  "calculateReturns now capTableEvolution c =
     (case returnsBody now capTableEvolution c of
        Inl e \<Rightarrow> Inl (CalculationError ''returns_calculation'' (FailedReturns (message_of e)))
      | Inr returns \<Rightarrow> Inr returns)"

section \<open>Objects and the sensitivity engine\<close>

text \<open>
  \<open>calculateSensitivityScenarios\<close> creates companies and rounds and assigns to a field
  of one of them, so here objects have addresses. The heap is the list of the objects
  created so far, an address is a position in it, and a new object goes to the end.
  A company object holds the addresses of its rounds.
\<close>

type_synonym addr = nat

datatype object = RoundObject FundingRound | CompanyObject "addr Company"

type_synonym heap = "object list"

definition alloc :: "heap \<Rightarrow> object \<Rightarrow> heap \<times> addr" where
  "alloc h obj = (h @ [obj], length h)"

definition getRound :: "heap \<Rightarrow> addr \<Rightarrow> FundingRound option" where
  "getRound h a =
     (if a < length h then (case h ! a of RoundObject r \<Rightarrow> Some r | CompanyObject _ \<Rightarrow> None)
      else None)"

definition getCompany :: "heap \<Rightarrow> addr \<Rightarrow> addr Company option" where
  "getCompany h a =
     (if a < length h then (case h ! a of CompanyObject c \<Rightarrow> Some c | RoundObject _ \<Rightarrow> None)
      else None)"

text \<open>A company and its rounds are where their addresses say, in a heap that is well formed.\<close>

definition wf_company :: "heap \<Rightarrow> addr \<Rightarrow> bool" where
  "wf_company h a =
     (case getCompany h a of
        None \<Rightarrow> False
      | Some c \<Rightarrow> list_all (\<lambda>ra. getRound h ra \<noteq> None) (rounds c))"

text \<open>
  The values a company object and its rounds hold: what the engine reads, and also the
  plain data that \<open>toObject\<close> returns, which copies every field of the company and, through
  \<open>round.toObject()\<close>, every field of each round.
\<close>

definition toObject :: "heap \<Rightarrow> addr \<Rightarrow> FundingRound Company" where
  "toObject h a =
     (let c = the (getCompany h a) in
      \<lparr> companyName = companyName c, currency = currency c, founderShares = founderShares c,
        optionPoolPercent = optionPoolPercent c, optionPoolTopUp = optionPoolTopUp c,
        useRevenueMultiples = useRevenueMultiples c, exitYear = exitYear c,
        exitValuation = exitValuation c, exitMultiple = exitMultiple c,
        rounds = map (\<lambda>ra. the (getRound h ra)) (rounds c) \<rparr>)"

definition DEFAULT_FOUNDER_SHARES :: jsnum where "DEFAULT_FOUNDER_SHARES = Num 10000000"
definition DEFAULT_OPTION_POOL_PERCENT :: jsnum where "DEFAULT_OPTION_POOL_PERCENT = Num 20"
definition DEFAULT_EXIT_YEARS_AHEAD :: int where "DEFAULT_EXIT_YEARS_AHEAD = 6"
definition DEFAULT_EXIT_VALUATION :: jsnum where "DEFAULT_EXIT_VALUATION = Num 100000000"
definition DEFAULT_EXIT_MULTIPLE :: jsnum where "DEFAULT_EXIT_MULTIPLE = Num 5"
definition DEFAULT_CURRENCY :: string where "DEFAULT_CURRENCY = ''GBP''"
definition DEFAULT_PRE_MONEY_VALUATION :: jsnum where "DEFAULT_PRE_MONEY_VALUATION = Num 5000000"
definition DEFAULT_INVESTMENT :: jsnum where "DEFAULT_INVESTMENT = Num 1000000"
definition DEFAULT_REVENUE :: jsnum where "DEFAULT_REVENUE = Num 0"
definition DEFAULT_LIQUIDATION_PREF :: string where "DEFAULT_LIQUIDATION_PREF = ''1x''"
definition DEFAULT_ANTI_DILUTION :: string where "DEFAULT_ANTI_DILUTION = ''none''"
definition DEFAULT_DISCOUNT_RATE :: jsnum where "DEFAULT_DISCOUNT_RATE = Num 0"

text \<open>
  The constructors, on data in which every field is present, as in the data \<open>toObject\<close>
  returns. \<open>x || d\<close> on a string takes \<open>d\<close> for the empty string.
\<close>

definition str_or :: "string \<Rightarrow> string \<Rightarrow> string" where
  "str_or s d = (if s = [] then d else s)"

definition new_FundingRound :: "int \<Rightarrow> FundingRound \<Rightarrow> FundingRound" where
  "new_FundingRound now d =
     \<lparr> id_r = (case id_r d of None \<Rightarrow> None | Some i \<Rightarrow> if truthy i then Some i else None),
       type = (case type d of None \<Rightarrow> None | Some s \<Rightarrow> if s = [] then None else Some s),
       year = js_or (year d) (Num (of_int now)),
       preMoneyValuation = js_or (preMoneyValuation d) DEFAULT_PRE_MONEY_VALUATION,
       investment = js_or (investment d) DEFAULT_INVESTMENT,
       revenue = js_or (revenue d) DEFAULT_REVENUE,
       liquidationPref = str_or (liquidationPref d) DEFAULT_LIQUIDATION_PREF,
       antiDilution = str_or (antiDilution d) DEFAULT_ANTI_DILUTION,
       discountRate = js_or (discountRate d) DEFAULT_DISCOUNT_RATE,
       postMoneyValuation = None, equityPercentage = None, sharesIssued = None,
       ownershipPercent = None \<rparr>"

fun new_rounds :: "int \<Rightarrow> heap \<Rightarrow> FundingRound list \<Rightarrow> heap \<times> addr list" where
  "new_rounds now h [] = (h, [])"
| "new_rounds now h (d # ds) =
     (let (h1, a) = alloc h (RoundObject (new_FundingRound now d));
          (h2, as) = new_rounds now h1 ds
      in (h2, a # as))"

definition new_Company :: "int \<Rightarrow> heap \<Rightarrow> FundingRound Company \<Rightarrow> heap \<times> addr" where
  "new_Company now h d =
     (let (h1, as) = new_rounds now h (rounds d)
      in alloc h1 (CompanyObject
           \<lparr> companyName = companyName d,
             currency = str_or (currency d) DEFAULT_CURRENCY,
             founderShares = js_or (founderShares d) DEFAULT_FOUNDER_SHARES,
             optionPoolPercent = js_or (optionPoolPercent d) DEFAULT_OPTION_POOL_PERCENT,
             optionPoolTopUp = optionPoolTopUp d,
             useRevenueMultiples = useRevenueMultiples d,
             exitYear = js_or (exitYear d) (Num (of_int (now + DEFAULT_EXIT_YEARS_AHEAD))),
             exitValuation = js_or (exitValuation d) DEFAULT_EXIT_VALUATION,
             exitMultiple = js_or (exitMultiple d) DEFAULT_EXIT_MULTIPLE,
             rounds = as \<rparr>))"

text \<open>The assignment \<open>round.preMoneyValuation = v\<close> to the round object at an address.\<close>

definition set_preMoneyValuation :: "heap \<Rightarrow> addr \<Rightarrow> jsnum \<Rightarrow> heap" where
  "set_preMoneyValuation h a v =
     (case getRound h a of
        None \<Rightarrow> h
      | Some r \<Rightarrow> h[a := RoundObject (r\<lparr>preMoneyValuation := v\<rparr>)])"

record Scenario =
  label :: string
  class_s :: string
  multiplier :: jsnum

definition SCENARIOS :: "Scenario list" where
  "SCENARIOS =
     [\<lparr> label = ''-20%'', class_s = ''text-danger'', multiplier = Num (8 / 10) \<rparr>,
      \<lparr> label = ''-10%'', class_s = ''text-warning'', multiplier = Num (9 / 10) \<rparr>,
      \<lparr> label = ''Base'', class_s = ''fw-bold'', multiplier = Num 1 \<rparr>,
      \<lparr> label = ''+10%'', class_s = ''text-success'', multiplier = Num (11 / 10) \<rparr>,
      \<lparr> label = ''+20%'', class_s = ''text-success'', multiplier = Num (12 / 10) \<rparr>]"

record ScenarioValues =
  multiplier_sr :: jsnum
  preMoneyValuation_sr :: jsnum
  founderReturn_sr :: jsnum
  esopReturn_sr :: jsnum
  totalInvestorReturn_sr :: jsnum
  roundMultiple :: jsnum
  roundIRR :: jsnum

text \<open>A scenario's result: its label and class, and the values or the error message.\<close>

datatype ScenarioResult =
    ScenarioResult string string ScenarioValues
  | ScenarioFailed string string message

text \<open>
  One pass of the loop over the scenarios: what is pushed on \<open>scenarioResults\<close>, and the
  heap after it. \<open>baseline\<close> is the address of \<open>company.rounds[roundIndex]\<close>, whose fields
  are read in the heap as it is in this pass.
\<close>

definition runScenario ::
  "int \<Rightarrow> heap \<Rightarrow> addr \<Rightarrow> nat \<Rightarrow> addr \<Rightarrow> Scenario \<Rightarrow> heap \<times> ScenarioResult" where
  "runScenario now h company roundIndex baseline scenario =
     (let (h1, modifiedCompany) = new_Company now h (toObject h company);
          target = rounds (the (getCompany h1 modifiedCompany)) ! roundIndex;
          h2 = set_preMoneyValuation h1 target
                 (js_mul (preMoneyValuation (the (getRound h1 baseline))) (multiplier scenario));
          modified = toObject h2 modifiedCompany
      in (h2,
          case calculateEvolution now modified of
            Inl e \<Rightarrow> ScenarioFailed (label scenario) (class_s scenario) (message_of e)
          | Inr capTable \<Rightarrow>
              (case calculateReturns now (Some capTable) modified of
                 Inl e \<Rightarrow> ScenarioFailed (label scenario) (class_s scenario) (message_of e)
               | Inr returns \<Rightarrow>
                   let roundReturn' = List.find
                         (\<lambda>r. round_rr r = type (the (getRound h2 baseline))) (roundReturns returns)
                   in ScenarioResult (label scenario) (class_s scenario)
                        \<lparr> multiplier_sr = multiplier scenario,
                          preMoneyValuation_sr = preMoneyValuation (the (getRound h2 target)),
                          founderReturn_sr = founderReturn returns,
                          esopReturn_sr = esopReturn returns,
                          totalInvestorReturn_sr = totalInvestorReturn returns,
                          roundMultiple =
                            (case roundReturn' of None \<Rightarrow> Num 0 | Some r \<Rightarrow> multipleOfMoney r),
                          roundIRR = (case roundReturn' of None \<Rightarrow> Num 0 | Some r \<Rightarrow> irr r) \<rparr>)))"

fun runScenarios ::
  "int \<Rightarrow> heap \<Rightarrow> addr \<Rightarrow> nat \<Rightarrow> addr \<Rightarrow> ScenarioResult list \<Rightarrow> Scenario list
     \<Rightarrow> heap \<times> ScenarioResult list" where
  "runScenarios now h company roundIndex baseline results [] = (h, results)"
| "runScenarios now h company roundIndex baseline results (scenario # rest) =
     (let (h', result) = runScenario now h company roundIndex baseline scenario
      in runScenarios now h' company roundIndex baseline (results @ [result]) rest)"

text \<open>
  \<open>calculateSensitivityScenarios\<close>, for an index that is an integer:
  \<open>company.rounds[roundIndex]\<close> is \<open>undefined\<close> outside the array.
\<close>

definition calculateSensitivityScenarios ::
  "int \<Rightarrow> heap \<Rightarrow> addr \<Rightarrow> int \<Rightarrow> Scenario list \<Rightarrow> heap \<times> (error + ScenarioResult list)" where
  "calculateSensitivityScenarios now h company roundIndex scenarios =
     (let rs = rounds (the (getCompany h company)) in
      if roundIndex < 0 \<or> int (length rs) \<le> roundIndex
      then (h, Inl (CalculationError ''sensitivity_analysis''
             (FailedSensitivity (message_of (DataError ''round'' (RoundIndexNotFound roundIndex))))))
      else
        let (h', results) =
              runScenarios now h company (nat roundIndex) (rs ! nat roundIndex) [] scenarios
        in (h', Inr results))"

section \<open>Properties and inputs the statements below use\<close>

text \<open>A stage's three percentages sum to within \<open>0.1\<close> of \<open>100\<close>.\<close>

definition ownership_conserved :: "CapTableStage \<Rightarrow> bool" where
  "ownership_conserved s = js_le (js_abs (js_sub (ownershipTotal s) (Num 100))) tolerance"

text \<open>The company of the scenario: a seed round of 1,000,000 at 5,000,000 pre-money.\<close>

definition seedRound :: FundingRound where
  "seedRound =
     \<lparr> id_r = None, type = Some ''Seed'', year = Num 2025, preMoneyValuation = Num 5000000,
       investment = Num 1000000, revenue = Num 0, liquidationPref = ''1x'',
       antiDilution = ''none'', discountRate = Num 0, postMoneyValuation = None,
       equityPercentage = None, sharesIssued = None, ownershipPercent = None \<rparr>"

definition scenarioCompany :: "FundingRound Company" where
  "scenarioCompany =
     \<lparr> companyName = ''Acme'', currency = ''GBP'', founderShares = Num 10000000,
       optionPoolPercent = Num 20, optionPoolTopUp = True, useRevenueMultiples = True,
       exitYear = Num 2030, exitValuation = Num 50000000, exitMultiple = Num 5,
       rounds = [seedRound] \<rparr>"

text \<open>The same company with an option pool of 100 percent: without rounds, and without top-up.\<close>

definition fullPoolCompany :: "FundingRound Company" where
  "fullPoolCompany = scenarioCompany\<lparr> optionPoolPercent := Num 100, rounds := [] \<rparr>"

definition fullPoolNoTopUp :: "FundingRound Company" where
  "fullPoolNoTopUp = scenarioCompany\<lparr> optionPoolPercent := Num 100, optionPoolTopUp := False \<rparr>"

definition fullPoolTopUp :: "FundingRound Company" where
  "fullPoolTopUp = scenarioCompany\<lparr> optionPoolPercent := Num 100 \<rparr>"

text \<open>
  Every violation of a company's data: those of its own fields and those of each round,
  as the checks of \<open>validateCompanyData\<close> and \<open>validateFundingRound\<close> find them. An error
  mentions the errors in its list and the ones they mention.
\<close>

definition allViolations :: "FundingRound Company \<Rightarrow> error list" where
  "allViolations c = companyErrors c @ concat (map roundErrors (rounds c))"

primrec mentioned :: "error \<Rightarrow> error list"
  and mentioned_payload :: "payload \<Rightarrow> error list" where
  "mentioned (ValidationError f m v) = mentioned_payload v"
| "mentioned (CalculationError operation m) = []"
| "mentioned (DataError dataType m) = []"
| "mentioned_payload NoValue = []"
| "mentioned_payload (Value v) = []"
| "mentioned_payload (Errors es) = es @ concat (map mentioned es)"

text \<open>Two companies with two violations each: in the name and a round, and in two rounds.\<close>

definition namelessCompany :: "FundingRound Company" where
  "namelessCompany =
     scenarioCompany\<lparr> companyName := [], rounds := [seedRound\<lparr> type := Some ''Angel'' \<rparr>] \<rparr>"

definition twoBadRounds :: "FundingRound Company" where
  "twoBadRounds =
     scenarioCompany\<lparr> rounds := [seedRound\<lparr> type := Some ''Angel'' \<rparr>,
                               seedRound\<lparr> year := Num 1999 \<rparr>] \<rparr>"


text \<open>
  The scenario's company with a second round, given before the first; and the stages
  that the engine above computes for it, in exact arithmetic.
\<close>

definition seriesA :: FundingRound where
  "seriesA =
     \<lparr> id_r = None, type = Some ''Series A'', year = Num 2027,
       preMoneyValuation = Num 20000000, investment = Num 5000000, revenue = Num 1000000,
       liquidationPref = ''1x'', antiDilution = ''weighted-average'', discountRate = Num 20,
       postMoneyValuation = None, equityPercentage = None, sharesIssued = None,
       ownershipPercent = None \<rparr>"

definition twoRoundCompany :: "FundingRound Company" where
  "twoRoundCompany = scenarioCompany\<lparr> rounds := [seriesA, seedRound] \<rparr>"

definition incorporationStage :: CapTableStage where
  "incorporationStage =
     \<lparr> stage = ''Incorporation'', year_st = Num 2024, totalShares = Num 12500000,
       founderShares_st = Num 10000000, optionPoolShares = Num 2500000,
       investorShares = Num 0, newInvestorShares = Num 0, round_st = None,
       liquidationStack = [], founderOwnership = Num 80, optionPoolOwnership = Num 20,
       investorOwnership = Num 0, newInvestorOwnership = Num 0,
       preMoneyValuation_st = Num 0, postMoneyValuation_st = Num 0, investment_st = Num 0,
       revenue_st = Num 0, revenueMultiple = Num 0 \<rparr>"

definition seedEntry :: LiquidationEntry where
  "seedEntry =
     \<lparr> round_e = Some ''Seed'', investment_e = Num 1000000, preference = ''1x'',
       shares = Num 2500000, year_e = Num 2025, ownershipPercent_e = Num (500 / 31) \<rparr>"

definition seedStage :: CapTableStage where
  "seedStage =
     \<lparr> stage = ''Seed'', year_st = Num 2025, totalShares = Num 15500000,
       founderShares_st = Num 10000000, optionPoolShares = Num 3000000,
       investorShares = Num 2500000, newInvestorShares = Num 2500000,
       round_st = Some seedRound, liquidationStack = [seedEntry],
       founderOwnership = Num (129 / 2), optionPoolOwnership = Num (97 / 5),
       investorOwnership = Num (161 / 10), newInvestorOwnership = Num (161 / 10),
       preMoneyValuation_st = Num 5000000, postMoneyValuation_st = Num 6000000,
       investment_st = Num 1000000, revenue_st = Num 0, revenueMultiple = Num 0 \<rparr>"

definition seriesAEntry :: LiquidationEntry where
  "seriesAEntry =
     \<lparr> round_e = Some ''Series A'', investment_e = Num 5000000, preference = ''1x'',
       shares = Num 3875000, year_e = Num 2027, ownershipPercent_e = Num (1550 / 81) \<rparr>"

definition seriesAStage :: CapTableStage where
  "seriesAStage =
     \<lparr> stage = ''Series A'', year_st = Num 2027, totalShares = Num 20250000,
       founderShares_st = Num 10000000, optionPoolShares = Num 3875000,
       investorShares = Num 6375000, newInvestorShares = Num 3875000,
       round_st = Some seriesA, liquidationStack = [seedEntry, seriesAEntry],
       founderOwnership = Num (247 / 5), optionPoolOwnership = Num (191 / 10),
       investorOwnership = Num (63 / 2), newInvestorOwnership = Num (191 / 10),
       preMoneyValuation_st = Num 20000000, postMoneyValuation_st = Num 25000000,
       investment_st = Num 5000000, revenue_st = Num 1000000, revenueMultiple = Num 25 \<rparr>"

text \<open>
  A round and a company without the anti-dilution provisions and discount rates of the
  rounds; two companies differ in nothing else when these are equal. A stage without
  its reference to the round.
\<close>

definition eraseTerms :: "FundingRound \<Rightarrow> FundingRound" where
  "eraseTerms r = r\<lparr> antiDilution := [], discountRate := Num 0 \<rparr>"

definition eraseCompanyTerms :: "FundingRound Company \<Rightarrow> FundingRound Company" where
  "eraseCompanyTerms c = c\<lparr> rounds := map eraseTerms (rounds c) \<rparr>"

definition differ_only_in_terms :: "FundingRound Company \<Rightarrow> FundingRound Company \<Rightarrow> bool" where
  "differ_only_in_terms c c' = (eraseCompanyTerms c = eraseCompanyTerms c')"

definition withoutRound :: "CapTableStage \<Rightarrow> CapTableStage" where
  "withoutRound s = s\<lparr> round_st := None \<rparr>"

text \<open>The two-round company with other anti-dilution provisions and discount rates.\<close>

definition otherTermsCompany :: "FundingRound Company" where
  "otherTermsCompany =
     scenarioCompany\<lparr> rounds :=
       [seriesA\<lparr> antiDilution := ''full-ratchet'', discountRate := Num 35 \<rparr>,
        seedRound\<lparr> antiDilution := ''weighted-average'', discountRate := Num 10 \<rparr>] \<rparr>"

text \<open>A heap that holds the scenario's company, at address 1, and its round, at address 0.\<close>

definition scenarioHeap :: heap where
  "scenarioHeap =
     [RoundObject seedRound,
      CompanyObject
        \<lparr> companyName = ''Acme'', currency = ''GBP'', founderShares = Num 10000000,
          optionPoolPercent = Num 20, optionPoolTopUp = True, useRevenueMultiples = True,
          exitYear = Num 2030, exitValuation = Num 50000000, exitMultiple = Num 5,
          rounds = [0] \<rparr>]"

section \<open>The engine in binary64 arithmetic\<close>

text \<open>
  A Number is an IEEE 754 binary64 value, and each arithmetic operation of the program
  rounds its exact result to the nearest such value, a tie going to the one whose last
  bit is even. The operations above leave this rounding out, and the values of a run
  depend on it: \<open>Math.floor\<close> of a quotient that rounding has put just below a whole
  number is one less than the floor of the exact quotient. This section gives the
  operations with the rounding, and the evolution engine over them. Validation, sorting
  and the constructor of \<open>CapTableStage\<close> do no arithmetic and are the ones above; so
  are \<open>Math.floor\<close>, \<open>Math.abs\<close>, \<open>Math.max\<close> and the comparisons, which are exact.
\<close>

subsection \<open>Rounding to binary64\<close>

text \<open>
  The position of the leading bit of a positive number: \<open>exponent a\<close> is the \<open>e\<close> with
  \<open>2^e \<le> a < 2^(e+1)\<close>.
\<close>

fun ilog2 :: "nat \<Rightarrow> nat" where
  "ilog2 n = (if n < 2 then 0 else Suc (ilog2 (n div 2)))"

declare ilog2.simps [simp del]

definition exponent :: "real \<Rightarrow> int" where
  "exponent a =
     (if 1 \<le> a then int (ilog2 (nat \<lfloor>a\<rfloor>))
      else - int (Suc (ilog2 (nat (\<lceil>1 / a\<rceil> - 1)))))"

definition pow2 :: "int \<Rightarrow> real" where
  "pow2 k = (if 0 \<le> k then 2 ^ nat k else 1 / 2 ^ nat (- k))"

definition round_half_even :: "real \<Rightarrow> int" where
  "round_half_even y =
     (let n = \<lfloor>y\<rfloor>; r = y - of_int n
      in if r < 1 / 2 then n else if 1 / 2 < r then n + 1 else if even n then n else n + 1)"

text \<open>
  \<open>fl x\<close> is the Number nearest to the real \<open>x\<close>. A binary64 value has 53 significant
  bits, so near \<open>x\<close> the values are the multiples of \<open>2^(e - 52)\<close>, where \<open>e\<close> is the
  exponent of \<open>x\<close> and not less than \<open>-1022\<close> (below that the values are the subnormal
  ones, with the spacing \<open>2^(-1074)\<close>). A result of magnitude \<open>2^1024\<close> is an infinity.
  The sign of a zero is not kept.
\<close>

definition fl :: "real \<Rightarrow> jsnum" where
  "fl x =
     (if x = 0 then Num 0
      else let a = \<bar>x\<bar>;
               e = max (exponent a) (- 1022);
               q = pow2 (e - 52);
               v = of_int (round_half_even (a / q)) * q
           in if pow2 1024 \<le> v then (if 0 < x then PInf else NInf)
              else Num (sgn x * v))"

subsection \<open>The operations\<close>

text \<open>
  On two finite numbers an operation gives the rounded exact result; on the other
  operands it is as above. The operands are Numbers: whole numbers of the input, or
  results of these operations.
\<close>

definition fl_add :: "jsnum \<Rightarrow> jsnum \<Rightarrow> jsnum" where
  "fl_add a b = (case (a, b) of (Num x, Num y) \<Rightarrow> fl (x + y) | _ \<Rightarrow> js_add a b)"

definition fl_sub :: "jsnum \<Rightarrow> jsnum \<Rightarrow> jsnum" where
  "fl_sub a b = (case (a, b) of (Num x, Num y) \<Rightarrow> fl (x - y) | _ \<Rightarrow> js_sub a b)"

definition fl_mul :: "jsnum \<Rightarrow> jsnum \<Rightarrow> jsnum" where
  "fl_mul a b = (case (a, b) of (Num x, Num y) \<Rightarrow> fl (x * y) | _ \<Rightarrow> js_mul a b)"

definition fl_div :: "jsnum \<Rightarrow> jsnum \<Rightarrow> jsnum" where
  "fl_div a b =
     (case (a, b) of
        (Num x, Num y) \<Rightarrow> (if y = 0 then signed_inf (sgn x) else fl (x / y))
      | _ \<Rightarrow> js_div a b)"

text \<open>
  \<open>parseFloat(x.toFixed(1))\<close>: \<open>toFixed\<close> prints the decimal with one digit after the point
  that is nearest to the exact value of \<open>x\<close>, and \<open>parseFloat\<close> reads it as the Number
  nearest to that decimal.
\<close>

definition fl_toFixed1 :: "jsnum \<Rightarrow> jsnum" where
  "fl_toFixed1 x = (case toFixed1 x of Num d \<Rightarrow> fl d | y \<Rightarrow> y)"

subsection \<open>The evolution engine\<close>

definition calculatePercentage64 :: "jsnum \<Rightarrow> jsnum \<Rightarrow> jsnum" where
  "calculatePercentage64 part whole =
     (if whole = Num 0 then Num 0
      else fl_toFixed1 (fl_mul (fl_div part whole) (Num 100)))"

definition getInitialOptionPoolShares64 :: "'r Company \<Rightarrow> jsnum" where
  "getInitialOptionPoolShares64 c =
     js_floor (fl_div (fl_mul (founderShares c) (optionPoolPercent c))
       (fl_sub (Num 100) (optionPoolPercent c)))"

definition calculateOwnership64 :: "CapTableStage \<Rightarrow> CapTableStage" where
  "calculateOwnership64 s =
     (if totalShares s = Num 0 then s
      else s\<lparr> founderOwnership := calculatePercentage64 (founderShares_st s) (totalShares s),
              optionPoolOwnership := calculatePercentage64 (optionPoolShares s) (totalShares s),
              investorOwnership := calculatePercentage64 (investorShares s) (totalShares s),
              newInvestorOwnership :=
                calculatePercentage64 (newInvestorShares s) (totalShares s) \<rparr>)"

definition ownershipTotal64 :: "CapTableStage \<Rightarrow> jsnum" where
  "ownershipTotal64 s =
     fl_add (fl_add (founderOwnership s) (optionPoolOwnership s)) (investorOwnership s)"

text \<open>The literal \<open>0.1\<close> denotes the Number nearest to one tenth.\<close>

definition tolerance64 :: jsnum where
  "tolerance64 = fl (1 / 10)"

definition validateOwnership64 :: "CapTableStage \<Rightarrow> error + unit" where
  "validateOwnership64 s =
     (let total = ownershipTotal64 s in
      if js_gt (js_abs (fl_sub total (Num 100))) tolerance64
      then Inl (CalculationError ''ownership_validation'' (OwnershipTotal total))
      else Inr ())"

text \<open>A stage's three percentages sum to within \<open>0.1\<close> of \<open>100\<close>, as the program computes it.\<close>

definition ownership_conserved64 :: "CapTableStage \<Rightarrow> bool" where
  "ownership_conserved64 s =
     js_le (js_abs (fl_sub (ownershipTotal64 s) (Num 100))) tolerance64"

definition incorporationStageData64 ::
  "int \<Rightarrow> jsnum \<Rightarrow> jsnum \<Rightarrow> jsnum option \<Rightarrow> CapTableStage" where
  "incorporationStageData64 now founderShares' optionPoolShares' firstRoundYear =
     (let totalShares' = fl_add founderShares' optionPoolShares';
          year' = (case firstRoundYear of
                     None \<Rightarrow> Num (of_int now)
                   | Some y \<Rightarrow> if truthy y then fl_sub y (Num 1) else Num (of_int now))
      in \<lparr> stage = ''Incorporation'', year_st = year', totalShares = totalShares',
           founderShares_st = founderShares', optionPoolShares = optionPoolShares',
           investorShares = Num 0, newInvestorShares = Num 0, round_st = None,
           liquidationStack = [],
           founderOwnership = Num 0, optionPoolOwnership = Num 0, investorOwnership = Num 0,
           newInvestorOwnership = Num 0, preMoneyValuation_st = Num 0,
           postMoneyValuation_st = Num 0, investment_st = Num 0, revenue_st = Num 0,
           revenueMultiple = Num 0 \<rparr>)"

definition createIncorporationStage64 ::
  "int \<Rightarrow> jsnum \<Rightarrow> jsnum \<Rightarrow> jsnum option \<Rightarrow> error + CapTableStage" where
  "createIncorporationStage64 now founderShares' optionPoolShares' firstRoundYear =
     (let stage' = calculateOwnership64 (new_CapTableStage now
            (incorporationStageData64 now founderShares' optionPoolShares' firstRoundYear))
      in (case validateOwnership64 stage' of
            Inl e \<Rightarrow> Inl e
          | Inr _ \<Rightarrow> Inr stage'))"

definition roundStageData64 ::
  "FundingRound \<Rightarrow> jsnum \<Rightarrow> jsnum \<Rightarrow> jsnum \<Rightarrow> FundingRound Company \<Rightarrow> CapTableStage
     \<Rightarrow> CapTableStage" where
  "roundStageData64 r founderShares' optionPoolShares0 totalInvestorShares c previousStage =
     (let postMoney = fl_add (preMoneyValuation r) (investment r);
          investorOwnershipPercent = fl_mul (fl_div (investment r) postMoney) (Num 100);
          totalSharesBefore =
            fl_add (fl_add founderShares' optionPoolShares0) totalInvestorShares;
          newInvestorShares' = js_floor (fl_div (fl_mul totalSharesBefore investorOwnershipPercent)
            (fl_sub (Num 100) investorOwnershipPercent));
          optionPoolTopUpShares =
            (if optionPoolTopUp c
             then js_max (Num 0)
               (fl_sub (js_floor (fl_div (fl_mul (fl_add totalSharesBefore newInvestorShares')
                   (optionPoolPercent c)) (Num 100))) optionPoolShares0)
             else Num 0);
          optionPoolShares' =
            (if optionPoolTopUp c then fl_add optionPoolShares0 optionPoolTopUpShares
             else optionPoolShares0);
          newTotalInvestorShares = fl_add totalInvestorShares newInvestorShares';
          totalSharesAfter =
            fl_add (fl_add totalSharesBefore newInvestorShares') optionPoolTopUpShares;
          liquidationStack' = liquidationStack previousStage @
            [\<lparr> round_e = type r, investment_e = investment r, preference = liquidationPref r,
               shares = newInvestorShares', year_e = year r,
               ownershipPercent_e = fl_mul (fl_div newInvestorShares' totalSharesAfter) (Num 100) \<rparr>]
      in \<lparr> stage = string_of (type r), year_st = year r, totalShares = totalSharesAfter,
           founderShares_st = founderShares', optionPoolShares = optionPoolShares',
           investorShares = newTotalInvestorShares, newInvestorShares = newInvestorShares',
           round_st = Some r, liquidationStack = liquidationStack',
           founderOwnership = Num 0, optionPoolOwnership = Num 0, investorOwnership = Num 0,
           newInvestorOwnership = Num 0, preMoneyValuation_st = preMoneyValuation r,
           postMoneyValuation_st = postMoney, investment_st = investment r,
           revenue_st = revenue r,
           revenueMultiple =
             (if js_gt (revenue r) (Num 0) then fl_div postMoney (revenue r) else Num 0) \<rparr>)"

definition processRound64 ::
  "int \<Rightarrow> FundingRound \<Rightarrow> jsnum \<Rightarrow> jsnum \<Rightarrow> jsnum \<Rightarrow> FundingRound Company \<Rightarrow> CapTableStage
     \<Rightarrow> error + CapTableStage" where
  "processRound64 now r founderShares' optionPoolShares0 totalInvestorShares c previousStage =
     (let stage' = calculateOwnership64 (new_CapTableStage now
            (roundStageData64 r founderShares' optionPoolShares0 totalInvestorShares c
               previousStage))
      in (case validateOwnership64 stage' of
            Inl e \<Rightarrow> Inl (CalculationError ''round_processing''
                           (FailedToProcessRound (type r) (message_of e)))
          | Inr _ \<Rightarrow> Inr stage'))"

fun processRounds64 ::
  "int \<Rightarrow> FundingRound Company \<Rightarrow> jsnum \<Rightarrow> jsnum \<Rightarrow> jsnum \<Rightarrow> CapTableStage list
     \<Rightarrow> FundingRound list \<Rightarrow> error + CapTableStage list" where
  "processRounds64 now c fs ops tis evolution [] = Inr evolution"
| "processRounds64 now c fs ops tis evolution (r # rs) =
     (case processRound64 now r fs ops tis c (last evolution) of
        Inl e \<Rightarrow> Inl e
      | Inr stage' \<Rightarrow>
          processRounds64 now c fs (optionPoolShares stage') (investorShares stage')
            (evolution @ [stage']) rs)"

definition evolutionBody64 :: "int \<Rightarrow> FundingRound Company \<Rightarrow> error + CapTableStage list" where
  "evolutionBody64 now c =
     (case validate c of
        Inl e \<Rightarrow> Inl e
      | Inr _ \<Rightarrow>
          let rounds' = getRoundsByYear c;
              founderShares' = founderShares c;
              optionPoolShares' = getInitialOptionPoolShares64 c
          in (case createIncorporationStage64 now founderShares' optionPoolShares'
                     (case rounds' of [] \<Rightarrow> None | r # _ \<Rightarrow> Some (year r)) of
                Inl e \<Rightarrow> Inl e
              | Inr incorporationStage' \<Rightarrow>
                  processRounds64 now c founderShares' optionPoolShares' (Num 0)
                    [incorporationStage'] rounds'))"

definition calculateEvolution64 :: "int \<Rightarrow> FundingRound Company \<Rightarrow> error + CapTableStage list" where
  "calculateEvolution64 now c =
     (case evolutionBody64 now c of
        Inl e \<Rightarrow> Inl (CalculationError ''cap_table_evolution'' (FailedEvolution (message_of e)))
      | Inr evolution \<Rightarrow> Inr evolution)"

text \<open>
  The stages of the scenario's company as the program computes them: the quotient that
  gives the new investor shares is rounded to \<open>2499999.9999999995\<close>, and its floor is
  2,499,999.
\<close>

definition seedEntry64 :: LiquidationEntry where
  "seedEntry64 =
     \<lparr> round_e = Some ''Seed'', investment_e = Num 1000000, preference = ''1x'',
       shares = Num 2499999, year_e = Num 2025,
       ownershipPercent_e = Num (567489718629047 / 35184372088832) \<rparr>"

definition seedStage64 :: CapTableStage where
  "seedStage64 =
     \<lparr> stage = ''Seed'', year_st = Num 2025, totalShares = Num 15499998,
       founderShares_st = Num 10000000, optionPoolShares = Num 2999999,
       investorShares = Num 2499999, newInvestorShares = Num 2499999,
       round_st = Some seedRound, liquidationStack = [seedEntry64],
       founderOwnership = Num (129 / 2),
       optionPoolOwnership = Num (2730307274093363 / 140737488355328),
       investorOwnership = Num (2265873562520781 / 140737488355328),
       newInvestorOwnership = Num (2265873562520781 / 140737488355328),
       preMoneyValuation_st = Num 5000000, postMoneyValuation_st = Num 6000000,
       investment_st = Num 1000000, revenue_st = Num 0, revenueMultiple = Num 0 \<rparr>"

section \<open>Facts about numbers and validation\<close>

lemma js_lt_NaN [simp]: "js_lt x NaN = False"
  by (cases x) simp_all

lemma js_add_NaN [simp]: "js_add x NaN = NaN"
  by (cases x) simp_all

lemma js_mul_NaN [simp]: "js_mul x NaN = NaN"
  by (cases x) simp_all

lemma js_div_NaN [simp]: "js_div x NaN = NaN"
  by (cases x) simp_all


lemma js_or_same: "js_or x x = x"
  by (simp add: js_or_def)

lemma validateNumber_range:
  assumes "validateNumber v n (Some (Num a)) (Some (Num b)) = Inr w"
  shows "\<exists>x. v = Num x \<and> a \<le> x \<and> x \<le> b"
proof (cases v)
  case (Num x)
  with assms show ?thesis
    by (auto simp add: validateNumber_def validateRequired_def isNaN_def js_gt_def
        split: if_splits)
next
  case PInf
  with assms show ?thesis
    by (simp add: validateNumber_def validateRequired_def isNaN_def js_gt_def)
next
  case NInf
  with assms show ?thesis
    by (simp add: validateNumber_def validateRequired_def isNaN_def js_gt_def)
next
  case NaN
  with assms show ?thesis
    by (simp add: validateNumber_def validateRequired_def isNaN_def js_gt_def)
qed

lemma validateInteger_range:
  assumes "validateInteger v n (Some (Num a)) (Some (Num b)) = Inr w"
  shows "\<exists>x. v = Num x \<and> a \<le> x \<and> x \<le> b"
proof -
  from assms obtain w' where "validateNumber v n (Some (Num a)) (Some (Num b)) = Inr w'"
    by (auto simp add: validateInteger_def split: sum.splits)
  then show ?thesis by (rule validateNumber_range)
qed

lemma caught_Nil: "caught r = [] \<longleftrightarrow> (\<exists>x. r = Inr x)"
  by (cases r) (simp_all add: caught_def)

lemma validateCompanyData_ok: "validateCompanyData c = Inr () \<longleftrightarrow> companyErrors c = []"
  by (simp add: validateCompanyData_def Let_def)

lemma validateFundingRound_ok: "validateFundingRound r = Inr () \<longleftrightarrow> roundErrors r = []"
  by (simp add: validateFundingRound_def Let_def)

lemma validateRounds_ok:
  "validateRounds i rs = Inr () \<longleftrightarrow> (\<forall>r \<in> set rs. roundErrors r = [])"
proof (induction rs arbitrary: i)
  case Nil
  show ?case by simp
next
  case (Cons r rs)
  show ?case
  proof (cases "validateFundingRound r")
    case (Inl e)
    then have "roundErrors r \<noteq> []"
      using validateFundingRound_ok [of r] by auto
    with Inl show ?thesis by simp
  next
    case (Inr u)
    then have "roundErrors r = []"
      using validateFundingRound_ok [of r] by simp
    with Inr Cons.IH [of "i + 1"] show ?thesis by simp
  qed
qed

lemma validate_ok:
  "validate c = Inr () \<longleftrightarrow> companyErrors c = [] \<and> (\<forall>r \<in> set (rounds c). roundErrors r = [])"
proof (cases "validateCompanyData c")
  case (Inl e)
  then have "companyErrors c \<noteq> []"
    using validateCompanyData_ok [of c] by auto
  with Inl show ?thesis by (simp add: validate_def)
next
  case (Inr u)
  then have "companyErrors c = []"
    using validateCompanyData_ok [of c] by simp
  with Inr show ?thesis by (simp add: validate_def validateRounds_ok)
qed

text \<open>What validation says of the numbers the engine computes with.\<close>

lemma valid_founderShares:
  assumes "validate c = Inr ()"
  shows "\<exists>f. founderShares c = Num f \<and> 1 \<le> f"
proof -
  from assms have "companyErrors c = []" by (simp add: validate_ok)
  then have "caught (validateInteger (founderShares c) ''Founder Shares''
      (Some MIN_FOUNDER_SHARES) (Some MAX_FOUNDER_SHARES)) = []"
    by (simp add: companyErrors_def)
  then obtain w where "validateInteger (founderShares c) ''Founder Shares''
      (Some (Num 1)) (Some (Num 1000000000)) = Inr w"
    by (auto simp add: caught_Nil MIN_FOUNDER_SHARES_def MAX_FOUNDER_SHARES_def)
  from validateInteger_range [OF this] show ?thesis by auto
qed

lemma valid_optionPoolPercent:
  assumes "validate c = Inr ()"
  shows "\<exists>p. optionPoolPercent c = Num p \<and> 0 \<le> p \<and> p \<le> 100"
proof -
  from assms have "companyErrors c = []" by (simp add: validate_ok)
  then have "caught (validatePercentage (optionPoolPercent c) ''Option Pool Percentage'') = []"
    by (simp add: companyErrors_def)
  then obtain w where "validateNumber (optionPoolPercent c) ''Option Pool Percentage''
      (Some (Num 0)) (Some (Num 100)) = Inr w"
    by (auto simp add: caught_Nil validatePercentage_def)
  from validateNumber_range [OF this] show ?thesis by auto
qed

lemma valid_round:
  assumes "validate c = Inr ()" and "r \<in> set (rounds c)"
  shows "\<exists>p i. preMoneyValuation r = Num p \<and> 1 \<le> p \<and> investment r = Num i \<and> 1 \<le> i"
proof -
  from assms have e: "roundErrors r = []" by (simp add: validate_ok)
  then have "caught (validateNumber (preMoneyValuation r) ''Pre-Money Valuation''
      (Some MIN_VALUATION) (Some MAX_VALUATION)) = []"
    by (simp add: roundErrors_def)
  then obtain w where "validateNumber (preMoneyValuation r) ''Pre-Money Valuation''
      (Some (Num 1)) (Some (Num 1000000000000)) = Inr w"
    by (auto simp add: caught_Nil MIN_VALUATION_def MAX_VALUATION_def)
  from validateNumber_range [OF this] obtain p
    where p: "preMoneyValuation r = Num p" "1 \<le> p" by auto
  from e have "caught (validateNumber (investment r) ''Investment Amount''
      (Some MIN_INVESTMENT) (Some MAX_INVESTMENT)) = []"
    by (simp add: roundErrors_def)
  then obtain w' where "validateNumber (investment r) ''Investment Amount''
      (Some (Num 1)) (Some (Num 1000000000000)) = Inr w'"
    by (auto simp add: caught_Nil MIN_INVESTMENT_def MAX_INVESTMENT_def)
  from validateNumber_range [OF this] obtain i
    where "investment r = Num i" "1 \<le> i" by auto
  with p show ?thesis by auto
qed

lemmas validation_defs =
  validate_def validateCompanyData_def companyErrors_def caught_def
  validateRequired_def validateInteger_def validateNumber_def validatePercentage_def
  validateCurrency_def validateYear_def validateFundingRound_def roundErrors_def
  validateRoundType_def isNaN_def js_gt_def MIN_YEAR_def MAX_YEAR_def
  MIN_FOUNDER_SHARES_def MAX_FOUNDER_SHARES_def MIN_VALUATION_def MAX_VALUATION_def
  MIN_INVESTMENT_def MAX_INVESTMENT_def CURRENCIES_def ROUND_TYPES_def
  object_prototype_keys_def

lemmas stage_defs =
  getInitialOptionPoolShares_def createIncorporationStage_def js_sub_def
  new_CapTableStage_def calculateOwnership_def calculatePercentage_def validateOwnership_def
  ownershipTotal_def tolerance_def js_or_def truthy_def round1_def js_gt_def Let_def
  processRound_def js_max_def string_of_def signed_inf_def incorporationStageData_def
  roundStageData_def

lemma seedRound_errors: "roundErrors seedRound = []"
  by (simp add: validation_defs seedRound_def)

lemma scenarioCompany_errors: "companyErrors scenarioCompany = []"
  by (simp add: validation_defs scenarioCompany_def)

lemma validate_scenarioCompany: "validate scenarioCompany = Inr ()"
  by (simp add: validate_ok scenarioCompany_errors)
    (simp add: scenarioCompany_def seedRound_errors)

lemma validate_fullPoolCompany: "validate fullPoolCompany = Inr ()"
  by (simp add: validate_ok)
    (simp add: validation_defs fullPoolCompany_def scenarioCompany_def)

lemma validate_fullPoolNoTopUp: "validate fullPoolNoTopUp = Inr ()"
  by (simp add: validate_ok)
    (simp add: validation_defs fullPoolNoTopUp_def scenarioCompany_def seedRound_def)

section \<open>Facts about the engine\<close>





lemma js_add_zero_right [simp]: "js_add x (Num 0) = x"
  by (cases x) simp_all







lemma investor_percent:
  assumes "1 \<le> p" and "1 \<le> i"
  shows "\<exists>t. js_mul (js_div (Num i) (js_add (Num p) (Num i))) (Num 100) = Num t \<and> 0 < t \<and> t < 100"
proof -
  have pos: "0 < p + i" using assms by simp
  then have "i / (p + i) * 100 < 100" using assms by (simp add: field_simps)
  moreover have "0 < i / (p + i) * 100" using assms pos by simp
  ultimately show ?thesis using pos by auto
qed

lemma share_fields_calculateOwnership:
  "totalShares (calculateOwnership s) = totalShares s"
  "founderShares_st (calculateOwnership s) = founderShares_st s"
  "optionPoolShares (calculateOwnership s) = optionPoolShares s"
  "investorShares (calculateOwnership s) = investorShares s"
  "newInvestorShares (calculateOwnership s) = newInvestorShares s"
  "liquidationStack (calculateOwnership s) = liquidationStack s"
  by (simp_all add: calculateOwnership_def)

lemma zero_total_rejected:
  assumes "totalShares s = Num 0" and "founderOwnership s = Num 0"
    and "optionPoolOwnership s = Num 0" and "investorOwnership s = Num 0"
  shows "validateOwnership (calculateOwnership s) \<noteq> Inr ()"
  using assms
  by (simp add: calculateOwnership_def validateOwnership_def ownershipTotal_def js_sub_def
      js_gt_def tolerance_def)

lemma roundStageData_shares:
  fixes r fs ops tis c prev
  defines "before \<equiv> js_add (js_add fs ops) tis"
  defines "pct \<equiv> js_mul (js_div (investment r) (js_add (preMoneyValuation r) (investment r))) (Num 100)"
  defines "new \<equiv> js_floor (js_div (js_mul before pct) (js_sub (Num 100) pct))"
  defines "topup \<equiv> (if optionPoolTopUp c
      then js_max (Num 0) (js_sub (js_floor (js_div (js_mul (js_add before new)
        (optionPoolPercent c)) (Num 100))) ops)
      else Num 0)"
  defines "d \<equiv> roundStageData r fs ops tis c prev"
  shows "totalShares d = js_add (js_add before new) topup"
    and "founderShares_st d = fs"
    and "optionPoolShares d = (if optionPoolTopUp c then js_add ops topup else ops)"
    and "investorShares d = js_add tis new"
    and "liquidationStack d = liquidationStack prev @
      [\<lparr> round_e = type r, investment_e = investment r, preference = liquidationPref r,
         shares = new, year_e = year r,
         ownershipPercent_e = js_mul (js_div new (js_add (js_add before new) topup)) (Num 100) \<rparr>]"
    and "founderOwnership d = Num 0" and "optionPoolOwnership d = Num 0"
    and "investorOwnership d = Num 0"
  unfolding d_def roundStageData_def Let_def before_def pct_def new_def topup_def
  by simp_all

lemma new_CapTableStage_fields:
  "totalShares (new_CapTableStage now d) = js_or (totalShares d) (Num 0)"
  "founderShares_st (new_CapTableStage now d) = js_or (founderShares_st d) (Num 0)"
  "optionPoolShares (new_CapTableStage now d) = js_or (optionPoolShares d) (Num 0)"
  "investorShares (new_CapTableStage now d) = js_or (investorShares d) (Num 0)"
  "liquidationStack (new_CapTableStage now d) = liquidationStack d"
  "founderOwnership (new_CapTableStage now d) = js_or (founderOwnership d) (Num 0)"
  "optionPoolOwnership (new_CapTableStage now d) = js_or (optionPoolOwnership d) (Num 0)"
  "investorOwnership (new_CapTableStage now d) = js_or (investorOwnership d) (Num 0)"
  by (simp_all add: new_CapTableStage_def)

lemma processRound_Inr:
  assumes "processRound now r fs ops tis c prev = Inr s"
  shows "s = calculateOwnership (new_CapTableStage now (roundStageData r fs ops tis c prev))"
    and "validateOwnership s = Inr ()"
  using assms by (auto simp add: processRound_def Let_def split: sum.splits)

lemma processRound_result:
  assumes "processRound now r fs ops tis c prev = Inr s"
  defines "before \<equiv> js_add (js_add fs ops) tis"
  defines "pct \<equiv> js_mul (js_div (investment r) (js_add (preMoneyValuation r) (investment r))) (Num 100)"
  defines "new \<equiv> js_floor (js_div (js_mul before pct) (js_sub (Num 100) pct))"
  defines "topup \<equiv> (if optionPoolTopUp c
      then js_max (Num 0) (js_sub (js_floor (js_div (js_mul (js_add before new)
        (optionPoolPercent c)) (Num 100))) ops)
      else Num 0)"
  shows "totalShares s = js_or (js_add (js_add before new) topup) (Num 0)"
    and "founderShares_st s = js_or fs (Num 0)"
    and "optionPoolShares s = js_or (if optionPoolTopUp c then js_add ops topup else ops) (Num 0)"
    and "investorShares s = js_or (js_add tis new) (Num 0)"
    and "\<exists>e. liquidationStack s = liquidationStack prev @ [e]"
    and "validateOwnership s = Inr ()"
    and "js_add (js_add before new) topup \<noteq> NaN"
proof -
  let ?d = "roundStageData r fs ops tis c prev"
  note s = processRound_Inr [OF assms(1)]
  note d = roundStageData_shares [of r fs ops tis c prev]
  show "totalShares s = js_or (js_add (js_add before new) topup) (Num 0)"
    and "founderShares_st s = js_or fs (Num 0)"
    and "optionPoolShares s = js_or (if optionPoolTopUp c then js_add ops topup else ops) (Num 0)"
    and "investorShares s = js_or (js_add tis new) (Num 0)"
    and "\<exists>e. liquidationStack s = liquidationStack prev @ [e]"
    unfolding s(1) before_def pct_def new_def topup_def
    by (simp_all add: share_fields_calculateOwnership new_CapTableStage_fields d)
  show "validateOwnership s = Inr ()" by (rule s(2))
  show "js_add (js_add before new) topup \<noteq> NaN"
  proof
    assume "js_add (js_add before new) topup = NaN"
    then have "totalShares ?d = NaN"
      unfolding before_def pct_def new_def topup_def by (simp add: d)
    then have "totalShares (new_CapTableStage now ?d) = Num 0"
      "founderOwnership (new_CapTableStage now ?d) = Num 0"
      "optionPoolOwnership (new_CapTableStage now ?d) = Num 0"
      "investorOwnership (new_CapTableStage now ?d) = Num 0"
      by (simp_all add: new_CapTableStage_fields d js_or_def truthy_def)
    from zero_total_rejected [OF this] s show False by simp
  qed
qed

lemma successively_nth:
  "successively P xs \<longleftrightarrow> (\<forall>i. Suc i < length xs \<longrightarrow> P (xs ! i) (xs ! Suc i))"
proof (induction P xs rule: successively.induct)
  case (3 P x y xs)
  show ?case
  proof
    assume a: "successively P (x # y # xs)"
    show "\<forall>i. Suc i < length (x # y # xs) \<longrightarrow> P ((x # y # xs) ! i) ((x # y # xs) ! Suc i)"
    proof (intro allI impI)
      fix i assume "Suc i < length (x # y # xs)"
      with a 3 show "P ((x # y # xs) ! i) ((x # y # xs) ! Suc i)"
        by (cases i) auto
    qed
  next
    assume a: "\<forall>i. Suc i < length (x # y # xs) \<longrightarrow> P ((x # y # xs) ! i) ((x # y # xs) ! Suc i)"
    from a [rule_format, of 0] have "P x y" by simp
    moreover have "\<forall>i. Suc i < length (y # xs) \<longrightarrow> P ((y # xs) ! i) ((y # xs) ! Suc i)"
    proof (intro allI impI)
      fix i assume "Suc i < length (y # xs)"
      with a [rule_format, of "Suc i"] show "P ((y # xs) ! i) ((y # xs) ! Suc i)" by simp
    qed
    ultimately show "successively P (x # y # xs)" using 3 by simp
  qed
qed simp_all

lemma processRounds_invariant:
  assumes step: "\<And>r ops tis prev s. r \<in> set rs \<Longrightarrow> I ops tis prev
      \<Longrightarrow> processRound now r fs ops tis c prev = Inr s
      \<Longrightarrow> P prev s \<and> Q s \<and> I (optionPoolShares s) (investorShares s) s"
    and "processRounds now c fs ops tis ev rs = Inr stages"
    and "ev \<noteq> []" and "I ops tis (last ev)" and "successively P ev" and "\<forall>s\<in>set ev. Q s"
  shows "successively P stages \<and> (\<forall>s\<in>set stages. Q s)"
  using assms
proof (induction rs arbitrary: ops tis ev)
  case Nil
  then show ?case by simp
next
  case (Cons r rs)
  from Cons.prems(2) obtain s where s: "processRound now r fs ops tis c (last ev) = Inr s"
    and rest: "processRounds now c fs (optionPoolShares s) (investorShares s) (ev @ [s]) rs = Inr stages"
    by (auto split: sum.splits)
  from Cons.prems(1) [OF _ Cons.prems(4) s]
  have p: "P (last ev) s" "Q s" "I (optionPoolShares s) (investorShares s) s" by simp_all
  show ?case
  proof (rule Cons.IH [OF _ rest])
    show "ev @ [s] \<noteq> []" by simp
    show "I (optionPoolShares s) (investorShares s) (last (ev @ [s]))" using p by simp
    show "successively P (ev @ [s])"
      using Cons.prems(3,5) p by (simp add: successively_append_iff)
    show "\<forall>s\<in>set (ev @ [s]). Q s" using Cons.prems(6) p by simp
  next
    fix r' ops' tis' prev s'
    assume "r' \<in> set rs" "I ops' tis' prev"
      "processRound now r' fs ops' tis' c prev = Inr s'"
    then show "P prev s' \<and> Q s' \<and> I (optionPoolShares s') (investorShares s') s'"
      using Cons.prems(1) [of r' ops' tis' prev s'] by simp
  qed
qed

lemma set_insertSorted: "set (insertSorted cmp x xs) = insert x (set xs)"
  by (induction xs) auto

lemma set_sortBy: "set (sortBy cmp xs) = set xs"
  by (induction xs) (simp_all add: sortBy_def set_insertSorted)

lemma calculateEvolution_Inr:
  assumes "calculateEvolution now c = Inr stages"
  shows "validate c = Inr ()
    \<and> (\<exists>inc y. createIncorporationStage now (founderShares c) (getInitialOptionPoolShares c) y
          = Inr inc
        \<and> processRounds now c (founderShares c) (getInitialOptionPoolShares c) (Num 0) [inc]
            (getRoundsByYear c) = Inr stages)"
proof -
  from assms have b: "evolutionBody now c = Inr stages"
    by (simp add: calculateEvolution_def split: sum.splits)
  then have v: "validate c = Inr ()"
    by (simp add: evolutionBody_def split: sum.splits)
  let ?y = "case getRoundsByYear c of [] \<Rightarrow> None | r # _ \<Rightarrow> Some (year r)"
  from b v obtain inc
    where "createIncorporationStage now (founderShares c) (getInitialOptionPoolShares c) ?y
        = Inr inc"
      and "processRounds now c (founderShares c) (getInitialOptionPoolShares c) (Num 0) [inc]
            (getRoundsByYear c) = Inr stages"
    by (simp add: evolutionBody_def Let_def split: sum.splits)
  with v show ?thesis by blast
qed





lemma processRounds_nonempty:
  "processRounds now c fs ops tis ev rs = Inr stages \<Longrightarrow> ev \<noteq> [] \<Longrightarrow> stages \<noteq> []"
  by (induction rs arbitrary: ops tis ev) (auto split: sum.splits)

lemma calculateEvolution_nonempty:
  assumes "calculateEvolution now c = Inr stages"
  shows "stages \<noteq> []"
proof -
  from calculateEvolution_Inr [OF assms] obtain inc
    where "processRounds now c (founderShares c) (getInitialOptionPoolShares c) (Num 0) [inc]
            (getRoundsByYear c) = Inr stages"
    by blast
  then show ?thesis by (rule processRounds_nonempty) simp
qed

section \<open>Facts about erased terms and about the heap\<close>

lemma calculateOwnership_round:
  "calculateOwnership (s\<lparr> round_st := x \<rparr>) = (calculateOwnership s)\<lparr> round_st := x \<rparr>"
  by (simp add: calculateOwnership_def)

lemma validateOwnership_round:
  "validateOwnership (s\<lparr> round_st := x \<rparr>) = validateOwnership s"
  by (simp add: validateOwnership_def ownershipTotal_def)

lemma new_CapTableStage_round:
  "new_CapTableStage now (d\<lparr> round_st := x \<rparr>) = (new_CapTableStage now d)\<lparr> round_st := x \<rparr>"
  by (simp add: new_CapTableStage_def)

lemma eraseTerms_fields [simp]:
  "type (eraseTerms r) = type r" "year (eraseTerms r) = year r"
  "preMoneyValuation (eraseTerms r) = preMoneyValuation r"
  "investment (eraseTerms r) = investment r" "revenue (eraseTerms r) = revenue r"
  "liquidationPref (eraseTerms r) = liquidationPref r"
  by (simp_all add: eraseTerms_def)

lemma eraseCompanyTerms_fields [simp]:
  "companyName (eraseCompanyTerms c) = companyName c"
  "currency (eraseCompanyTerms c) = currency c"
  "founderShares (eraseCompanyTerms c) = founderShares c"
  "optionPoolPercent (eraseCompanyTerms c) = optionPoolPercent c"
  "optionPoolTopUp (eraseCompanyTerms c) = optionPoolTopUp c"
  "exitYear (eraseCompanyTerms c) = exitYear c"
  "exitValuation (eraseCompanyTerms c) = exitValuation c"
  "rounds (eraseCompanyTerms c) = map eraseTerms (rounds c)"
  by (simp_all add: eraseCompanyTerms_def)

lemma roundStageData_erased:
  assumes "liquidationStack prev' = liquidationStack prev"
  shows "roundStageData (eraseTerms r) fs ops tis (eraseCompanyTerms c) prev' =
    (roundStageData r fs ops tis c prev)\<lparr> round_st := Some (eraseTerms r) \<rparr>"
  by (simp add: roundStageData_def Let_def assms)

lemma processRound_erased:
  assumes "liquidationStack prev' = liquidationStack prev"
  shows "processRound now (eraseTerms r) fs ops tis (eraseCompanyTerms c) prev' =
    map_sum id (\<lambda>s. s\<lparr> round_st := Some (eraseTerms r) \<rparr>) (processRound now r fs ops tis c prev)"
  by (simp add: processRound_def Let_def roundStageData_erased [OF assms]
      new_CapTableStage_round calculateOwnership_round validateOwnership_round split: sum.splits)

lemma withoutRound_fields [simp]:
  "liquidationStack (withoutRound s) = liquidationStack s"
  "withoutRound (s\<lparr> round_st := x \<rparr>) = withoutRound s"
  by (simp_all add: withoutRound_def)

lemma processRounds_erased:
  assumes "map withoutRound ev' = map withoutRound ev" and "ev \<noteq> []"
  shows "map_sum id (map withoutRound)
      (processRounds now (eraseCompanyTerms c) fs ops tis ev' (map eraseTerms rs))
    = map_sum id (map withoutRound) (processRounds now c fs ops tis ev rs)"
  using assms
proof (induction rs arbitrary: ops tis ev ev')
  case Nil
  then show ?case by simp
next
  case (Cons r rs)
  from Cons.prems have ne: "ev' \<noteq> []" by auto
  have "withoutRound (last ev') = withoutRound (last ev)"
    using Cons.prems ne by (metis last_map)
  then have st: "liquidationStack (last ev') = liquidationStack (last ev)"
    by (metis withoutRound_fields(1))
  show ?case
  proof (cases "processRound now r fs ops tis c (last ev)")
    case (Inl e)
    then show ?thesis by (simp add: processRound_erased [OF st])
  next
    case (Inr s)
    let ?s' = "s\<lparr> round_st := Some (eraseTerms r) \<rparr>"
    have "map withoutRound (ev' @ [?s']) = map withoutRound (ev @ [s])"
      using Cons.prems(1) by simp
    from Cons.IH [OF this, of "optionPoolShares s" "investorShares s"] Inr
    show ?thesis by (simp add: processRound_erased [OF st])
  qed
qed

lemma roundErrors_erased: "roundErrors (eraseTerms r) = roundErrors r"
  by (simp add: roundErrors_def)

lemma companyErrors_erased: "companyErrors (eraseCompanyTerms c) = companyErrors c"
  by (simp add: companyErrors_def)

lemma validateRounds_erased: "validateRounds i (map eraseTerms rs) = validateRounds i rs"
  by (induction rs arbitrary: i)
    (simp_all add: validateFundingRound_def roundErrors_erased Let_def)

lemma validate_erased: "validate (eraseCompanyTerms c) = validate c"
  by (simp add: validate_def validateCompanyData_def companyErrors_erased validateRounds_erased
      Let_def)

lemma compareYear_erased: "compareYear (eraseTerms a) (eraseTerms b) = compareYear a b"
  by (simp add: compareYear_def yearKey_def)

lemma insertSorted_erased:
  "insertSorted compareYear (eraseTerms x) (map eraseTerms xs)
    = map eraseTerms (insertSorted compareYear x xs)"
  by (induction xs) (simp_all add: compareYear_erased)

lemma getRoundsByYear_erased:
  "getRoundsByYear (eraseCompanyTerms c) = map eraseTerms (getRoundsByYear c)"
proof -
  have "sortBy compareYear (map eraseTerms xs) = map eraseTerms (sortBy compareYear xs)" for xs
    by (induction xs) (simp_all add: sortBy_def insertSorted_erased)
  then show ?thesis by (simp add: getRoundsByYear_def)
qed

lemma calculateEvolution_erased:
  "map_sum id (map withoutRound) (calculateEvolution now (eraseCompanyTerms c))
    = map_sum id (map withoutRound) (calculateEvolution now c)"
proof -
  have y: "(case map eraseTerms xs of [] \<Rightarrow> None | r # _ \<Rightarrow> Some (year r))
      = (case xs of [] \<Rightarrow> None | r # _ \<Rightarrow> Some (year r))" for xs
    by (cases xs) simp_all
  have "map_sum id (map withoutRound) (evolutionBody now (eraseCompanyTerms c))
      = map_sum id (map withoutRound) (evolutionBody now c)"
  proof (cases "validate c")
    case (Inl e)
    then show ?thesis by (simp add: evolutionBody_def validate_erased)
  next
    case (Inr u)
    show ?thesis
    proof (cases "createIncorporationStage now (founderShares c) (getInitialOptionPoolShares c)
        (case getRoundsByYear c of [] \<Rightarrow> None | r # _ \<Rightarrow> Some (year r))")
      case (Inl e)
      with Inr show ?thesis
        by (simp add: evolutionBody_def validate_erased getRoundsByYear_erased y
            getInitialOptionPoolShares_def Let_def)
    next
      case inc: (Inr inc)
      have "map withoutRound [inc] = map withoutRound [inc]" by simp
      from processRounds_erased [OF this, of now c "founderShares c"
          "getInitialOptionPoolShares c" "Num 0" "getRoundsByYear c"] Inr inc
      show ?thesis
        by (simp add: evolutionBody_def validate_erased getRoundsByYear_erased y
            getInitialOptionPoolShares_def Let_def)
    qed
  qed
  then show ?thesis
    by (cases "evolutionBody now c"; cases "evolutionBody now (eraseCompanyTerms c)")
      (simp_all add: calculateEvolution_def)
qed

lemma new_rounds_result:
  "new_rounds now h ds =
     (h @ map (\<lambda>d. RoundObject (new_FundingRound now d)) ds, [length h..<length h + length ds])"
proof (induction ds arbitrary: h)
  case Nil
  show ?case by simp
next
  case (Cons d ds)
  have "[length h..<length h + length (d # ds)]
      = length h # [Suc (length h)..<Suc (length h) + length ds]"
    by (subst upt_rec) simp
  then show ?case by (simp add: alloc_def Cons.IH del: upt_Suc)
qed

lemma new_Company_result:
  "\<exists>obj. new_Company now h d =
     (h @ map (\<lambda>d. RoundObject (new_FundingRound now d)) (rounds d) @ [CompanyObject obj],
      length h + length (rounds d))
     \<and> rounds obj = [length h..<length h + length (rounds d)]"
  by (simp add: new_Company_def new_rounds_result alloc_def)

lemma set_preMoneyValuation_result:
  "length (set_preMoneyValuation h a v) = length h"
  "n \<le> a \<Longrightarrow> take n (set_preMoneyValuation h a v) = take n h"
  by (simp_all add: set_preMoneyValuation_def split: option.splits)

lemma rounds_toObject: "length (rounds (toObject h a)) = length (rounds (the (getCompany h a)))"
  by (simp add: toObject_def Let_def)

lemma runScenario_heap:
  assumes "roundIndex < length (rounds (the (getCompany h company)))"
    and "runScenario now h company roundIndex baseline scenario = (h', result)"
  shows "take (length h) h' = h \<and> length h \<le> length h'"
proof -
  let ?d = "toObject h company"
  from new_Company_result [of now h ?d] obtain obj
    where n: "new_Company now h ?d =
        (h @ map (\<lambda>d. RoundObject (new_FundingRound now d)) (rounds ?d) @ [CompanyObject obj],
         length h + length (rounds ?d))"
      and r: "rounds obj = [length h..<length h + length (rounds ?d)]"
    by blast
  let ?h1 = "h @ map (\<lambda>d. RoundObject (new_FundingRound now d)) (rounds ?d) @ [CompanyObject obj]"
  let ?m = "length h + length (rounds ?d)"
  have "getCompany ?h1 ?m = Some obj"
    by (simp add: getCompany_def nth_append)
  then have t: "rounds (the (getCompany ?h1 ?m)) ! roundIndex = length h + roundIndex"
    using assms(1) r by (simp add: rounds_toObject)
  from assms(2) obtain v where "h' = set_preMoneyValuation ?h1 (length h + roundIndex) v"
    by (auto simp add: runScenario_def n t Let_def)
  then show ?thesis by (simp add: set_preMoneyValuation_result)
qed

lemma getCompany_prefix:
  assumes "take (length h) h' = h" and "a < length h"
  shows "getCompany h' a = getCompany h a" and "getRound h' a = getRound h a"
proof -
  from assms(1) have l: "length h \<le> length h'"
    by (metis length_take min.cobounded1)
  from assms have "h' ! a = h ! a"
    by (metis nth_take)
  with l assms(2) show "getCompany h' a = getCompany h a" and "getRound h' a = getRound h a"
    by (simp_all add: getCompany_def getRound_def)
qed

lemma runScenarios_heap:
  assumes "company < length h"
    and "roundIndex < length (rounds (the (getCompany h company)))"
    and "runScenarios now h company roundIndex baseline results scenarios = (h', results')"
  shows "take (length h) h' = h \<and> length h \<le> length h'"
  using assms
proof (induction scenarios arbitrary: h results)
  case Nil
  then show ?case by simp
next
  case (Cons scenario rest)
  obtain h1 result where s: "runScenario now h company roundIndex baseline scenario = (h1, result)"
    by (cases "runScenario now h company roundIndex baseline scenario")
  from runScenario_heap [OF Cons.prems(2) s]
  have p: "take (length h) h1 = h" "length h \<le> length h1" by simp_all
  from Cons.prems(3) s
  have r: "runScenarios now h1 company roundIndex baseline (results @ [result]) rest = (h', results')"
    by simp
  have c: "getCompany h1 company = getCompany h company"
    using p(1) Cons.prems(1) by (rule getCompany_prefix)
  have "take (length h1) h' = h1 \<and> length h1 \<le> length h'"
  proof (rule Cons.IH [OF _ _ r])
    show "company < length h1" using Cons.prems(1) p(2) by simp
    show "roundIndex < length (rounds (the (getCompany h1 company)))"
      using Cons.prems(2) c by simp
  qed
  then have "take (length h) (take (length h1) h') = take (length h) h1" "length h1 \<le> length h'"
    by simp_all
  with p show ?case by (simp add: min_def)
qed

lemma sensitivity_heap:
  assumes "company < length h"
    and "calculateSensitivityScenarios now h company roundIndex scenarios = (h', result)"
  shows "take (length h) h' = h \<and> length h \<le> length h'"
proof (cases "roundIndex < 0 \<or> int (length (rounds (the (getCompany h company)))) \<le> roundIndex")
  case True
  with assms(2) show ?thesis
    by (simp add: calculateSensitivityScenarios_def Let_def)
next
  case False
  then have i: "nat roundIndex < length (rounds (the (getCompany h company)))" by auto
  obtain h1 results where r: "runScenarios now h company (nat roundIndex)
      (rounds (the (getCompany h company)) ! nat roundIndex) [] scenarios = (h1, results)"
    by (cases "runScenarios now h company (nat roundIndex)
      (rounds (the (getCompany h company)) ! nat roundIndex) [] scenarios")
  with False assms(2) have "h' = h1"
    by (simp add: calculateSensitivityScenarios_def Let_def)
  with runScenarios_heap [OF assms(1) i r] show ?thesis by simp
qed

lemma wf_company_bounds:
  assumes "wf_company h a"
  shows "a < length h" and "\<forall>ra\<in>set (rounds (the (getCompany h a))). ra < length h"
proof -
  from assms obtain c where c: "getCompany h a = Some c"
    and r: "list_all (\<lambda>ra. getRound h ra \<noteq> None) (rounds c)"
    by (auto simp add: wf_company_def split: option.splits)
  from c show "a < length h"
    by (simp add: getCompany_def split: if_splits)
  from r c show "\<forall>ra\<in>set (rounds (the (getCompany h a))). ra < length h"
    by (auto simp add: list_all_iff getRound_def split: if_splits)
qed

section \<open>Finite and infinite share counts\<close>

lemma full_pool_shares:
  assumes "founderShares c = Num f" and "1 \<le> f" and "optionPoolPercent c = Num 100"
  shows "getInitialOptionPoolShares c = PInf"
  using assms by (simp add: getInitialOptionPoolShares_def js_sub_def signed_inf_def)

lemma full_pool_incorporation:
  assumes "1 \<le> f"
  shows "\<exists>inc. createIncorporationStage now (Num f) PInf y = Inr inc
           \<and> totalShares inc = PInf \<and> founderOwnership inc = Num 0
           \<and> optionPoolOwnership inc = NaN \<and> investorOwnership inc = Num 0"
  using assms by (simp add: stage_defs)

lemma NaN_total_not_conserved: "ownershipTotal s = NaN \<Longrightarrow> \<not> ownership_conserved s"
  by (simp add: ownership_conserved_def js_sub_def js_le_def)

lemma NaN_total_passes: "ownershipTotal s = NaN \<Longrightarrow> validateOwnership s = Inr ()"
  by (simp add: validateOwnership_def js_sub_def js_gt_def)

lemma is_finite_iff: "is_finite x \<longleftrightarrow> (\<exists>a. x = Num a)"
  by (cases x) simp_all

lemma is_finite_js_or: "is_finite x \<Longrightarrow> is_finite (js_or x (Num 0))"
  by (auto simp add: js_or_def)

lemma is_finite_js_or_NaN: "x = NaN \<or> is_finite x \<Longrightarrow> is_finite (js_or x (Num 0))"
  by (auto simp add: js_or_def truthy_def)

lemma is_finite_calculatePercentage:
  assumes "is_finite part" and "is_finite whole"
  shows "is_finite (calculatePercentage part whole)"
proof -
  from assms obtain a w where v: "part = Num a" "whole = Num w"
    by (auto simp add: is_finite_iff)
  show ?thesis
  proof (cases "w = 0")
    case True
    with v show ?thesis by (simp add: calculatePercentage_def)
  next
    case False
    with v show ?thesis by (simp add: calculatePercentage_def)
  qed
qed

lemma is_finite_add: "is_finite a \<Longrightarrow> is_finite b \<Longrightarrow> is_finite (js_add a b)"
  by (auto simp add: is_finite_iff)

lemma ownershipTotal_finite:
  assumes "is_finite (totalShares s)" and "is_finite (founderShares_st s)"
    and "is_finite (optionPoolShares s)" and "is_finite (investorShares s)"
    and "is_finite (founderOwnership s)" and "is_finite (optionPoolOwnership s)"
    and "is_finite (investorOwnership s)"
  shows "is_finite (ownershipTotal (calculateOwnership s))"
  using assms
  by (simp add: calculateOwnership_def ownershipTotal_def is_finite_add
      is_finite_calculatePercentage)

lemma validated_total:
  assumes "validateOwnership s = Inr ()"
  shows "ownershipTotal s = NaN \<or> ownership_conserved s"
proof (cases "ownershipTotal s")
  case (Num a)
  with assms show ?thesis
    by (simp add: validateOwnership_def ownership_conserved_def js_sub_def js_gt_def js_le_def
        tolerance_def split: if_splits)
next
  case PInf
  with assms show ?thesis
    by (simp add: validateOwnership_def js_sub_def js_gt_def tolerance_def)
next
  case NInf
  with assms show ?thesis
    by (simp add: validateOwnership_def js_sub_def js_gt_def tolerance_def)
next
  case NaN
  then show ?thesis by simp
qed

lemma validated_finite_total:
  assumes "validateOwnership s = Inr ()" and "is_finite (ownershipTotal s)"
  shows "ownership_conserved s"
  using validated_total [OF assms(1)] assms(2) by auto

lemma new_CapTableStage_finite:
  assumes "is_finite (totalShares d)" and "is_finite (founderShares_st d)"
    and "is_finite (optionPoolShares d)" and "is_finite (investorShares d)"
    and "founderOwnership d = Num 0" and "optionPoolOwnership d = Num 0"
    and "investorOwnership d = Num 0"
  shows "is_finite (ownershipTotal (calculateOwnership (new_CapTableStage now d)))"
  using assms
  by (intro ownershipTotal_finite) (simp_all add: new_CapTableStage_fields is_finite_js_or)

lemma roundStageData_finite:
  assumes "js_mul (js_div (investment r) (js_add (preMoneyValuation r) (investment r))) (Num 100)
      = Num t"
    and "t \<noteq> 100" and "optionPoolPercent c = Num q"
  shows "is_finite (totalShares (roundStageData r (Num f) (Num p) (Num i) c prev))"
    and "is_finite (optionPoolShares (roundStageData r (Num f) (Num p) (Num i) c prev))"
    and "is_finite (investorShares (roundStageData r (Num f) (Num p) (Num i) c prev))"
  using assms by (simp_all add: roundStageData_shares js_sub_def js_max_def)

lemma processRound_finite:
  assumes ok: "processRound now r fs ops tis c prev = Inr s"
    and fs: "is_finite fs" and ops: "is_finite ops" and tis: "is_finite tis"
    and q: "is_finite (optionPoolPercent c)"
    and r: "preMoneyValuation r = Num p" "1 \<le> p" "investment r = Num i" "1 \<le> i"
  shows "is_finite (optionPoolShares s)" and "is_finite (investorShares s)"
    and "ownership_conserved s"
proof -
  let ?d = "roundStageData r fs ops tis c prev"
  from investor_percent [OF r(2) r(4)] obtain t
    where t: "js_mul (js_div (investment r) (js_add (preMoneyValuation r) (investment r)))
        (Num 100) = Num t" "t \<noteq> 100"
    unfolding r by auto
  from fs ops tis q obtain f' o' t' q'
    where v: "fs = Num f'" "ops = Num o'" "tis = Num t'" "optionPoolPercent c = Num q'"
    by (auto simp add: is_finite_iff)
  note fin = roundStageData_finite [OF t v(4), of f' o' t' prev, folded v(1-3)]
  note d = roundStageData_shares [of r fs ops tis c prev]
  have f2: "is_finite (founderShares_st ?d)"
    using fs by (simp only: d(2))
  note s = processRound_Inr [OF ok]
  have "is_finite (ownershipTotal s)"
    unfolding s(1) using fin(1) f2 fin(2) fin(3) d(6) d(7) d(8)
    by (rule new_CapTableStage_finite)
  with s(2) show "ownership_conserved s" by (rule validated_finite_total)
  show "is_finite (optionPoolShares s)"
    unfolding s(1) using fin(2)
    by (simp add: share_fields_calculateOwnership new_CapTableStage_fields is_finite_js_or)
  show "is_finite (investorShares s)"
    unfolding s(1) using fin(3)
    by (simp add: share_fields_calculateOwnership new_CapTableStage_fields is_finite_js_or)
qed

lemma createIncorporationStage_finite:
  assumes "createIncorporationStage now fs ops y = Inr inc"
    and "is_finite fs" and "is_finite ops"
  shows "ownership_conserved inc"
proof -
  let ?d = "incorporationStageData now fs ops y"
  from assms(1) have s: "inc = calculateOwnership (new_CapTableStage now ?d)"
    and v: "validateOwnership inc = Inr ()"
    by (auto simp add: createIncorporationStage_def Let_def split: sum.splits)
  have "is_finite (ownershipTotal inc)"
    unfolding s using assms(2,3)
    by (intro new_CapTableStage_finite)
      (simp_all add: incorporationStageData_def Let_def is_finite_add)
  with v show ?thesis by (rule validated_finite_total)
qed

lemma finite_initial_pool:
  assumes "q \<noteq> 100"
  shows "is_finite (js_floor (js_div (js_mul (Num f) (Num q)) (js_sub (Num 100) (Num q))))"
  using assms by (simp add: js_sub_def)

lemma full_pool_round_data:
  assumes "js_mul (js_div (investment r) (js_add (preMoneyValuation r) (investment r))) (Num 100)
      = Num t"
    and "0 < t" and "t < 100" and "tis = Num 0 \<or> tis = PInf"
  shows "\<not> optionPoolTopUp c \<Longrightarrow> totalShares (roundStageData r (Num f) PInf tis c prev) = PInf"
    and "\<not> optionPoolTopUp c \<Longrightarrow> optionPoolShares (roundStageData r (Num f) PInf tis c prev) = PInf"
    and "investorShares (roundStageData r (Num f) PInf tis c prev) = PInf"
    and "optionPoolTopUp c \<Longrightarrow> optionPoolPercent c = Num 100
      \<Longrightarrow> totalShares (roundStageData r (Num f) PInf tis c prev) = NaN"
  using assms
  by (auto simp add: roundStageData_shares js_sub_def js_max_def signed_inf_def)

lemma full_pool_stage:
  assumes "totalShares d = PInf" and "founderShares_st d = Num f" and "1 \<le> f"
    and "optionPoolShares d = PInf"
  shows "ownershipTotal (calculateOwnership (new_CapTableStage now d)) = NaN"
    and "optionPoolShares (calculateOwnership (new_CapTableStage now d)) = PInf"
  using assms
  by (simp_all add: calculateOwnership_def new_CapTableStage_def ownershipTotal_def
      calculatePercentage_def js_or_def truthy_def)

lemma processRound_full_pool:
  assumes "\<not> optionPoolTopUp c" and "1 \<le> f" and "tis = Num 0 \<or> tis = PInf"
    and r: "preMoneyValuation r = Num p" "1 \<le> p" "investment r = Num i" "1 \<le> i"
  shows "\<exists>s. processRound now r (Num f) PInf tis c prev = Inr s
    \<and> optionPoolShares s = PInf \<and> investorShares s = PInf \<and> ownershipTotal s = NaN"
proof -
  let ?d = "roundStageData r (Num f) PInf tis c prev"
  let ?s = "calculateOwnership (new_CapTableStage now ?d)"
  from investor_percent [OF r(2) r(4)] obtain t
    where t: "js_mul (js_div (investment r) (js_add (preMoneyValuation r) (investment r)))
        (Num 100) = Num t" "0 < t" "t < 100"
    unfolding r by auto
  note d = full_pool_round_data [OF t assms(3), where c = c and f = f and prev = prev]
  have fd: "founderShares_st ?d = Num f" by (simp add: roundStageData_shares)
  note st = full_pool_stage [OF d(1) [OF assms(1)] fd assms(2) d(2) [OF assms(1)], of now]
  have "investorShares ?s = PInf"
    by (simp add: share_fields_calculateOwnership new_CapTableStage_fields d(3) js_or_def
        truthy_def)
  moreover have "processRound now r (Num f) PInf tis c prev = Inr ?s"
    by (simp add: processRound_def Let_def NaN_total_passes st(1))
  ultimately show ?thesis using st by simp
qed

lemma processRounds_full_pool:
  assumes "\<not> optionPoolTopUp c" and "1 \<le> f" and "tis = Num 0 \<or> tis = PInf"
    and "\<forall>r\<in>set rs. \<exists>p i. preMoneyValuation r = Num p \<and> 1 \<le> p \<and> investment r = Num i \<and> 1 \<le> i"
    and "\<forall>s\<in>set ev. ownershipTotal s = NaN"
  shows "\<exists>stages. processRounds now c (Num f) PInf tis ev rs = Inr stages
    \<and> (\<forall>s\<in>set stages. ownershipTotal s = NaN)"
  using assms(3,4,5)
proof (induction rs arbitrary: tis ev)
  case Nil
  then show ?case by simp
next
  case (Cons r rs)
  from Cons.prems(2) obtain p i
    where rv: "preMoneyValuation r = Num p" "1 \<le> p" "investment r = Num i" "1 \<le> i"
    by auto
  from processRound_full_pool [OF assms(1,2) Cons.prems(1) rv, of now "last ev"] obtain s
    where s: "processRound now r (Num f) PInf tis c (last ev) = Inr s"
      "optionPoolShares s = PInf" "investorShares s = PInf" "ownershipTotal s = NaN"
    by blast
  have "\<exists>stages. processRounds now c (Num f) PInf PInf (ev @ [s]) rs = Inr stages
      \<and> (\<forall>s\<in>set stages. ownershipTotal s = NaN)"
    using Cons.prems(2,3) s(4) by (intro Cons.IH) simp_all
  with s show ?case by simp
qed

lemma full_pool_top_up_rejected:
  assumes "optionPoolTopUp c" and "optionPoolPercent c = Num 100" and "1 \<le> f"
    and r: "preMoneyValuation r = Num p" "1 \<le> p" "investment r = Num i" "1 \<le> i"
  shows "\<exists>e. processRound now r (Num f) PInf (Num 0) c prev = Inl e"
proof -
  let ?d = "roundStageData r (Num f) PInf (Num 0) c prev"
  from investor_percent [OF r(2) r(4)] obtain t
    where t: "js_mul (js_div (investment r) (js_add (preMoneyValuation r) (investment r)))
        (Num 100) = Num t" "0 < t" "t < 100"
    unfolding r by auto
  have "totalShares ?d = NaN"
    using assms(1,2) by (intro full_pool_round_data(4) [OF t]) simp_all
  then have "totalShares (new_CapTableStage now ?d) = Num 0"
    "founderOwnership (new_CapTableStage now ?d) = Num 0"
    "optionPoolOwnership (new_CapTableStage now ?d) = Num 0"
    "investorOwnership (new_CapTableStage now ?d) = Num 0"
    by (simp_all add: new_CapTableStage_fields roundStageData_shares js_or_def truthy_def)
  from zero_total_rejected [OF this] show ?thesis
    by (cases "validateOwnership (calculateOwnership (new_CapTableStage now ?d))")
      (simp_all add: processRound_def Let_def)
qed

section \<open>Facts about the engine in binary64 arithmetic\<close>

lemmas fl_unfold = fl_def Let_def exponent_def round_half_even_def pow2_def

lemma tolerance64_value: "tolerance64 = Num (3602879701896397 / 36028797018963968)"
  unfolding tolerance64_def fl_unfold by (simp add: ilog2.simps)

text \<open>
  Rounding at work: a whole number up to \<open>2^53\<close> is kept, and of the two neighbours of
  \<open>2^53 + 1\<close> and of \<open>2^53 + 3\<close>, which are equally near, the one with an even last bit
  is taken.
\<close>

lemma fl_examples:
  "fl 9007199254740992 = Num 9007199254740992"
  "fl 9007199254740993 = Num 9007199254740992"
  "fl 9007199254740995 = Num 9007199254740996"
  "fl (- (1 / 3)) = Num (- (6004799503160661 / 18014398509481984))"
  unfolding fl_unfold by (simp_all add: ilog2.simps)

text \<open>
  Where the rounding shows. The decimal \<open>0.15\<close> is read as a Number just below it, which
  \<open>toFixed(1)\<close> prints as \<open>0.1\<close>. The Numbers read from \<open>77.3\<close>, \<open>9.9\<close> and \<open>12.9\<close> add up
  to \<open>100.10000000000001\<close>, which differs from 100 by more than the Number read from
  \<open>0.1\<close>: the ownership check rejects a stage with these percentages.
\<close>

lemma fl_toFixed1_example:
  "fl (15 / 100) = Num (5404319552844595 / 36028797018963968)"
  "fl_toFixed1 (Num (5404319552844595 / 36028797018963968))
     = Num (3602879701896397 / 36028797018963968)"
  "fl (1 / 10) = Num (3602879701896397 / 36028797018963968)"
  unfolding fl_toFixed1_def toFixed1.simps round1_def fl_unfold
  by (simp_all add: ilog2.simps)

lemma validateOwnership64_example:
  "fl (773 / 10) = Num (5439503924933427 / 70368744177664)"
  "fl (99 / 10) = Num (5573204538870989 / 562949953421312)"
  "fl (129 / 10) = Num (7262054399134925 / 562949953421312)"
  "validateOwnership64
     \<lparr> stage = ''Seed'', year_st = Num 2025, totalShares = Num 1000,
       founderShares_st = Num 773, optionPoolShares = Num 99,
       investorShares = Num 129, newInvestorShares = Num 129, round_st = None,
       liquidationStack = [],
       founderOwnership = Num (5439503924933427 / 70368744177664),
       optionPoolOwnership = Num (5573204538870989 / 562949953421312),
       investorOwnership = Num (7262054399134925 / 562949953421312),
       newInvestorOwnership = Num (7262054399134925 / 562949953421312),
       preMoneyValuation_st = Num 0, postMoneyValuation_st = Num 0, investment_st = Num 0,
       revenue_st = Num 0, revenueMultiple = Num 0 \<rparr>
   = Inl (CalculationError ''ownership_validation''
       (OwnershipTotal (Num (7043911292184167 / 70368744177664))))"
  unfolding validateOwnership64_def ownershipTotal64_def tolerance64_def fl_add_def fl_sub_def
    fl_unfold
  by (simp_all add: ilog2.simps js_gt_def)

text \<open>An operand that is not finite.\<close>

lemma fl_add_special [simp]:
  "fl_add PInf b = js_add PInf b" "fl_add NInf b = js_add NInf b" "fl_add NaN b = NaN"
  "fl_add a PInf = js_add a PInf" "fl_add a NInf = js_add a NInf" "fl_add a NaN = NaN"
  by (simp_all add: fl_add_def split: jsnum.splits)

lemma fl_sub_special [simp]:
  "fl_sub PInf b = js_sub PInf b" "fl_sub NInf b = js_sub NInf b" "fl_sub NaN b = NaN"
  "fl_sub a PInf = js_sub a PInf" "fl_sub a NInf = js_sub a NInf" "fl_sub a NaN = NaN"
  by (simp_all add: fl_sub_def js_sub_def split: jsnum.splits)

lemma fl_mul_special [simp]:
  "fl_mul PInf b = js_mul PInf b" "fl_mul NInf b = js_mul NInf b" "fl_mul NaN b = NaN"
  "fl_mul a PInf = js_mul a PInf" "fl_mul a NInf = js_mul a NInf" "fl_mul a NaN = NaN"
  by (simp_all add: fl_mul_def split: jsnum.splits)

lemma fl_div_special [simp]:
  "fl_div PInf b = js_div PInf b" "fl_div NInf b = js_div NInf b" "fl_div NaN b = NaN"
  "fl_div a PInf = js_div a PInf" "fl_div a NInf = js_div a NInf" "fl_div a NaN = NaN"
  by (simp_all add: fl_div_def split: jsnum.splits)

lemma fl_toFixed1_special [simp]:
  "fl_toFixed1 PInf = PInf" "fl_toFixed1 NInf = NInf" "fl_toFixed1 NaN = NaN"
  by (simp_all add: fl_toFixed1_def)

text \<open>The arithmetic of the scenario, operation by operation.\<close>

lemma scenario_fl_add:
  "fl_add (Num 10000000) (Num 2500000) = Num 12500000"
  "fl_add (Num 80) (Num 20) = Num 100"
  "fl_add (Num 100) (Num 0) = Num 100"
  "fl_add (Num 5000000) (Num 1000000) = Num 6000000"
  "fl_add (Num 12500000) (Num 0) = Num 12500000"
  "fl_add (Num 12500000) (Num 2499999) = Num 14999999"
  "fl_add (Num 2500000) (Num 499999) = Num 2999999"
  "fl_add (Num 0) (Num 2499999) = Num 2499999"
  "fl_add (Num 14999999) (Num 499999) = Num 15499998"
  "fl_add (Num (129 / 2)) (Num (2730307274093363 / 140737488355328))
     = Num (2951968818253005 / 35184372088832)"
  "fl_add (Num (2951968818253005 / 35184372088832)) (Num (2265873562520781 / 140737488355328))
     = Num 100"
  unfolding fl_add_def fl_unfold by (simp_all add: ilog2.simps)

lemma scenario_fl_sub:
  "fl_sub (Num 100) (Num 20) = Num 80"
  "fl_sub (Num 2025) (Num 1) = Num 2024"
  "fl_sub (Num 100) (Num 100) = Num 0"
  "fl_sub (Num 100) (Num (2345624805922133 / 140737488355328))
     = Num (2932031007402667 / 35184372088832)"
  "fl_sub (Num 2999999) (Num 2500000) = Num 499999"
  unfolding fl_sub_def fl_unfold by (simp_all add: ilog2.simps)

lemma scenario_fl_mul:
  "fl_mul (Num 10000000) (Num 20) = Num 200000000"
  "fl_mul (Num (3602879701896397 / 4503599627370496)) (Num 100) = Num 80"
  "fl_mul (Num (3602879701896397 / 18014398509481984)) (Num 100) = Num 20"
  "fl_mul (Num 0) (Num 100) = Num 0"
  "fl_mul (Num (6004799503160661 / 36028797018963968)) (Num 100)
     = Num (2345624805922133 / 140737488355328)"
  "fl_mul (Num 12500000) (Num (2345624805922133 / 140737488355328))
     = Num (3495253333333333 / 16777216)"
  "fl_mul (Num 14999999) (Num 20) = Num 299999980"
  "fl_mul (Num (5811094718761441 / 36028797018963968)) (Num 100)
     = Num (567489718629047 / 35184372088832)"
  "fl_mul (Num (2905548521600129 / 4503599627370496)) (Num 100)
     = Num (2269959782500101 / 35184372088832)"
  "fl_mul (Num (6973314127401493 / 36028797018963968)) (Num 100)
     = Num (170246926938513 / 8796093022208)"
  unfolding fl_mul_def fl_unfold by (simp_all add: ilog2.simps)

lemma scenario_fl_div:
  "fl_div (Num 200000000) (Num 80) = Num 2500000"
  "fl_div (Num 10000000) (Num 12500000) = Num (3602879701896397 / 4503599627370496)"
  "fl_div (Num 2500000) (Num 12500000) = Num (3602879701896397 / 18014398509481984)"
  "fl_div (Num 0) (Num 12500000) = Num 0"
  "fl_div (Num 1000000) (Num 6000000) = Num (6004799503160661 / 36028797018963968)"
  "fl_div (Num (3495253333333333 / 16777216)) (Num (2932031007402667 / 35184372088832))
     = Num (5368709119999999 / 2147483648)"
  "fl_div (Num 299999980) (Num 100) = Num (3221225257251635 / 1073741824)"
  "fl_div (Num 2499999) (Num 15499998) = Num (5811094718761441 / 36028797018963968)"
  "fl_div (Num 10000000) (Num 15499998) = Num (2905548521600129 / 4503599627370496)"
  "fl_div (Num 2999999) (Num 15499998) = Num (6973314127401493 / 36028797018963968)"
  unfolding fl_div_def fl_unfold by (simp_all add: ilog2.simps)

lemma scenario_fl_toFixed1:
  "fl_toFixed1 (Num 80) = Num 80"
  "fl_toFixed1 (Num 20) = Num 20"
  "fl_toFixed1 (Num 0) = Num 0"
  "fl_toFixed1 (Num (2269959782500101 / 35184372088832)) = Num (129 / 2)"
  "fl_toFixed1 (Num (170246926938513 / 8796093022208)) = Num (2730307274093363 / 140737488355328)"
  "fl_toFixed1 (Num (567489718629047 / 35184372088832))
     = Num (2265873562520781 / 140737488355328)"
  unfolding fl_toFixed1_def fl_unfold toFixed1.simps round1_def by (simp_all add: ilog2.simps)

lemma full_pool_fl:
  "fl_mul (Num 10000000) (Num 100) = Num 1000000000"
  "fl_add (Num 0) (Num 0) = Num 0"
  "fl_sub (Num 0) (Num 100) = Num (- 100)"
  "fl_div (Num 1000000000) (Num 0) = PInf"
  unfolding fl_mul_def fl_add_def fl_sub_def fl_div_def fl_unfold
  by (simp_all add: ilog2.simps signed_inf_def)

lemmas scenario_fl =
  scenario_fl_add scenario_fl_sub scenario_fl_mul scenario_fl_div scenario_fl_toFixed1
  tolerance64_value

lemmas stage64_defs =
  getInitialOptionPoolShares64_def createIncorporationStage64_def
  new_CapTableStage_def calculateOwnership64_def calculatePercentage64_def
  validateOwnership64_def ownershipTotal64_def js_or_def truthy_def js_gt_def Let_def
  processRound64_def js_max_def string_of_def incorporationStageData64_def
  roundStageData64_def js_sub_def signed_inf_def

lemma scenario_stages64:
  "calculateEvolution64 now scenarioCompany = Inr [incorporationStage, seedStage64]"
  apply (simp add: calculateEvolution64_def evolutionBody64_def validate_scenarioCompany)
  apply (simp add: scenarioCompany_def seedRound_def getRoundsByYear_def sortBy_def stage64_defs
      incorporationStage_def seedStage64_def seedEntry64_def scenario_fl)
  done

section \<open>The claims\<close>

subsection \<open>The stages of the company with two rounds\<close>

lemma validate_twoRoundCompany: "validate twoRoundCompany = Inr ()"
  by (simp add: validate_ok)
    (simp add: validation_defs twoRoundCompany_def scenarioCompany_def seedRound_def seriesA_def)

lemma twoRound_stages:
  "calculateEvolution now twoRoundCompany = Inr [incorporationStage, seedStage, seriesAStage]"
  apply (simp add: calculateEvolution_def evolutionBody_def validate_twoRoundCompany)
  apply (simp add: twoRoundCompany_def scenarioCompany_def seedRound_def seriesA_def
      getRoundsByYear_def sortBy_def compareYear_def yearKey_def stage_defs
      incorporationStage_def seedStage_def seedEntry_def seriesAStage_def seriesAEntry_def)
  done

subsection \<open>The scenario (C2)\<close>

text \<open>
  C2. For the company with 10,000,000 founder shares, an option pool of 20 percent with
  top-up, one Seed round in 2025 of 1,000,000 at 5,000,000 pre-money, and an exit in 2030
  at 50,000,000, \<open>calculateEvolution\<close>, in binary64 arithmetic, returns two stages. The
  incorporation stage has 2,500,000 option-pool shares and 12,500,000 shares in total.
  The Seed stage issues 2,499,999 new investor shares, one fewer than the 2,500,000 of
  exact arithmetic, and has 2,999,999 option-pool shares and 15,499,998 shares in total;
  its founder percentage is 64.5, strictly between 0 and 80, and its founder, pool and
  investor percentages sum to 100, which is within 0.1 of 100.
\<close>

theorem scenario_evolution:
  "\<exists>incorporation seed.
     calculateEvolution64 now scenarioCompany = Inr [incorporation, seed]
     \<and> optionPoolShares incorporation = Num 2500000
     \<and> totalShares incorporation = Num 12500000
     \<and> newInvestorShares seed = Num 2499999
     \<and> optionPoolShares seed = Num 2999999
     \<and> totalShares seed = Num 15499998
     \<and> founderOwnership seed = Num (129 / 2)
     \<and> js_lt (Num 0) (founderOwnership seed)
     \<and> js_lt (founderOwnership seed) (Num 80)
     \<and> ownershipTotal64 seed = Num 100
     \<and> ownership_conserved64 seed"
  by (simp add: scenario_stages64 incorporationStage_def seedStage64_def
      ownership_conserved64_def ownershipTotal64_def scenario_fl js_le_def)

subsection \<open>An empty stage sequence (C4)\<close>

text \<open>
  C4. For every company, \<open>calculateReturns\<close> on an empty stage sequence, or on none,
  fails with a \<open>CalculationError\<close> of operation \<open>returns_calculation\<close> whose message wraps
  that of the \<open>DataError\<close> thrown inside: the caller never sees the \<open>DataError\<close>.
\<close>

theorem calculateReturns_empty:
  "calculateReturns now (Some []) c =
     Inl (CalculationError ''returns_calculation'' (FailedReturns EvolutionIsEmpty))
   \<and> calculateReturns now None c =
     Inl (CalculationError ''returns_calculation'' (FailedReturns EvolutionIsEmpty))
   \<and> returnsBody now (Some []) c = Inl (DataError ''cap_table'' EvolutionIsEmpty)"
  by (simp add: calculateReturns_def returnsBody_def)

subsection \<open>The rate of return (C7)\<close>

text \<open>
  C7. \<open>calculateIRR\<close> returns 0 if the years held or the investment are at most 0;
  otherwise \<open>-100\<close> if the multiple (the return over the investment) is at most 0;
  otherwise \<open>(multiple ^ (1 / years) - 1) * 100\<close>. The comparisons are JavaScript's, so
  none of them holds of NaN. On finite numbers this is the formula over the reals, and
  an investment of 1,000,000 with an exit value of 0, held for a positive number of
  years, gives exactly \<open>-100\<close>; so does the return record of a round with that
  investment whose entry in the liquidation stack has an ownership percentage of 0, for
  an exit after the round's year.
\<close>

theorem calculateIRR_cases:
  "(js_le years (Num 0) \<or> js_le amount (Num 0) \<longrightarrow> calculateIRR amount ret years = Num 0)
   \<and> (\<not> (js_le years (Num 0) \<or> js_le amount (Num 0)) \<and> js_le (js_div ret amount) (Num 0)
        \<longrightarrow> calculateIRR amount ret years = Num (- 100))
   \<and> (\<not> (js_le years (Num 0) \<or> js_le amount (Num 0)) \<and> \<not> js_le (js_div ret amount) (Num 0)
        \<longrightarrow> calculateIRR amount ret years =
            js_mul (js_sub (js_pow (js_div ret amount) (js_div (Num 1) years)) (Num 1)) (Num 100))
   \<and> calculateIRR (Num i) (Num r) (Num y) =
        (if y \<le> 0 \<or> i \<le> 0 then Num 0
         else if r / i \<le> 0 then Num (- 100)
         else Num (((r / i) powr (1 / y) - 1) * 100))
   \<and> (0 < y \<longrightarrow> calculateIRR (Num 1000000) (Num 0) (Num y) = Num (- 100))
   \<and> (investment rd = Num 1000000 \<and> year rd = Num yr \<and> yr < ey
        \<and> ownershipPercent_e entry = Num 0 \<longrightarrow>
        exitValue (roundReturn rd entry (Num v) (Num ey)) = Num 0
        \<and> irr (roundReturn rd entry (Num v) (Num ey)) = Num (- 100))"
  by (auto simp add: calculateIRR_def js_le_def js_sub_def Let_def not_le roundReturn_def
      yearsBetween_def js_max_def)

theorem calculateIRR_cases_witness:
  "calculateIRR (Num 1000000) (Num 0) (Num 5) = Num (- 100)
   \<and> calculateIRR (Num 0) (Num 7) (Num 5) = Num 0
   \<and> calculateIRR (Num 1) (Num 4) (Num 2) = Num ((4 powr (1 / 2) - 1) * 100)
   \<and> calculateIRR NaN (Num 4) (Num 2) = NaN
   \<and> irr (roundReturn seedRound (seedEntry\<lparr> ownershipPercent_e := Num 0 \<rparr>)
         (Num 50000000) (Num 2030)) = Num (- 100)"
  using calculateIRR_cases [where years = "Num 5" and amount = "Num 0" and ret = "Num 7"
      and i = 1 and r = 4 and y = 2 and rd = seedRound and yr = 2025 and ey = 2030
      and entry = "seedEntry\<lparr> ownershipPercent_e := Num 0 \<rparr>" and v = 50000000]
    calculateIRR_cases [where years = "Num 2" and amount = NaN and ret = "Num 4"
      and i = 1 and r = 4 and y = 5 and rd = seedRound and yr = 2025 and ey = 2030
      and entry = "seedEntry\<lparr> ownershipPercent_e := Num 0 \<rparr>" and v = 50000000]
  by (simp add: js_le_def js_sub_def seedRound_def)

subsection \<open>An option pool of 100 percent (C1, C10)\<close>

lemma fullPoolNoTopUp_stages:
  "calculateEvolution now fullPoolNoTopUp = Inr
     [\<lparr> stage = ''Incorporation'', year_st = Num 2024, totalShares = PInf,
        founderShares_st = Num 10000000, optionPoolShares = PInf,
        investorShares = Num 0, newInvestorShares = Num 0, round_st = None,
        liquidationStack = [], founderOwnership = Num 0, optionPoolOwnership = NaN,
        investorOwnership = Num 0, newInvestorOwnership = Num 0,
        preMoneyValuation_st = Num 0, postMoneyValuation_st = Num 0, investment_st = Num 0,
        revenue_st = Num 0, revenueMultiple = Num 0 \<rparr>,
      \<lparr> stage = ''Seed'', year_st = Num 2025, totalShares = PInf,
        founderShares_st = Num 10000000, optionPoolShares = PInf,
        investorShares = PInf, newInvestorShares = PInf,
        round_st = Some seedRound,
        liquidationStack =
          [\<lparr> round_e = Some ''Seed'', investment_e = Num 1000000, preference = ''1x'',
             shares = PInf, year_e = Num 2025, ownershipPercent_e = NaN \<rparr>],
        founderOwnership = Num 0, optionPoolOwnership = NaN,
        investorOwnership = NaN, newInvestorOwnership = NaN,
        preMoneyValuation_st = Num 5000000, postMoneyValuation_st = Num 6000000,
        investment_st = Num 1000000, revenue_st = Num 0, revenueMultiple = Num 0 \<rparr>]"
  apply (simp add: calculateEvolution_def evolutionBody_def validate_fullPoolNoTopUp)
  apply (simp add: fullPoolNoTopUp_def scenarioCompany_def seedRound_def getRoundsByYear_def
      sortBy_def stage_defs)
  done

text \<open>
  C1, at a company that validation accepts: the scenario's company with an option pool of
  100 percent and no top-up. \<open>calculateEvolution\<close> returns two stages; in each the pool
  percentage is NaN, so is the sum of the three percentages, and the sum is not within
  0.1 of 100.
\<close>

theorem ownership_not_conserved_full_pool:
  "validate fullPoolNoTopUp = Inr ()
   \<and> (\<exists>incorporation seed.
        calculateEvolution now fullPoolNoTopUp = Inr [incorporation, seed]
        \<and> ownershipTotal incorporation = NaN \<and> \<not> ownership_conserved incorporation
        \<and> ownershipTotal seed = NaN \<and> \<not> ownership_conserved seed)"
  by (simp add: validate_fullPoolNoTopUp fullPoolNoTopUp_stages NaN_total_not_conserved
      ownershipTotal_def)

lemma validate_fullPoolTopUp: "validate fullPoolTopUp = Inr ()"
  by (simp add: validate_ok)
    (simp add: validation_defs fullPoolTopUp_def scenarioCompany_def seedRound_def)

lemma fullPoolTopUp_raises:
  "calculateEvolution now fullPoolTopUp =
     Inl (CalculationError ''cap_table_evolution''
       (FailedEvolution (FailedToProcessRound (Some ''Seed'') (OwnershipTotal (Num 0)))))"
  apply (simp add: calculateEvolution_def evolutionBody_def validate_fullPoolTopUp)
  apply (simp add: fullPoolTopUp_def scenarioCompany_def seedRound_def getRoundsByYear_def
      sortBy_def stage_defs)
  done

lemma fullPoolTopUp_raises64:
  "calculateEvolution64 now fullPoolTopUp =
     Inl (CalculationError ''cap_table_evolution''
       (FailedEvolution (FailedToProcessRound (Some ''Seed'') (OwnershipTotal (Num 0)))))"
  apply (simp add: calculateEvolution64_def evolutionBody64_def validate_fullPoolTopUp)
  apply (simp add: fullPoolTopUp_def scenarioCompany_def seedRound_def getRoundsByYear_def
      sortBy_def stage64_defs scenario_fl full_pool_fl)
  done

text \<open>
  C10 as stated fails: not every company that validation accepts with an option pool of
  100 percent runs through \<open>calculateEvolution\<close> without the error. The scenario's
  company with that percentage, which has top-up enabled and one round, is accepted by
  validation and its initial option-pool share count is \<open>+Infinity\<close>, but
  \<open>calculateEvolution\<close> raises a \<open>CalculationError\<close>: processing the Seed round fails
  with an ownership total of 0. It does so in exact and in binary64 arithmetic.
\<close>

theorem full_option_pool_top_up_raises:
  "validate fullPoolTopUp = Inr ()
   \<and> optionPoolPercent fullPoolTopUp = Num 100
   \<and> optionPoolTopUp fullPoolTopUp
   \<and> getInitialOptionPoolShares fullPoolTopUp = PInf
   \<and> calculateEvolution 2026 fullPoolTopUp =
       Inl (CalculationError ''cap_table_evolution''
         (FailedEvolution (FailedToProcessRound (Some ''Seed'') (OwnershipTotal (Num 0)))))
   \<and> calculateEvolution64 2026 fullPoolTopUp =
       Inl (CalculationError ''cap_table_evolution''
         (FailedEvolution (FailedToProcessRound (Some ''Seed'') (OwnershipTotal (Num 0)))))"
  by (simp add: validate_fullPoolTopUp fullPoolTopUp_raises fullPoolTopUp_raises64)
    (simp add: fullPoolTopUp_def scenarioCompany_def getInitialOptionPoolShares_def
      js_sub_def signed_inf_def)

text \<open>
  C10, amended. Validation accepts an option pool of 100 percent. For every company it
  accepts with that percentage, the initial option-pool share count is \<open>+Infinity\<close>, not
  a finite number, and the ownership check of the incorporation stage does not raise,
  although the sum of the percentages is NaN and not within 0.1 of 100. If the company
  has no rounds, or has top-up disabled, \<open>calculateEvolution\<close> raises no error and returns
  stages in each of which that sum is NaN. If it has top-up enabled and at least one
  round, \<open>calculateEvolution\<close> raises a \<open>CalculationError\<close>: the first round's total
  share count is NaN, which the constructor replaces by 0, so that every percentage
  stays 0 and the ownership check rejects the stage.
\<close>

theorem full_option_pool_outcome:
  assumes "validate c = Inr ()" and "optionPoolPercent c = Num 100"
  shows "getInitialOptionPoolShares c = PInf
    \<and> \<not> is_finite (getInitialOptionPoolShares c)
    \<and> (\<exists>inc. createIncorporationStage now (founderShares c) (getInitialOptionPoolShares c) y
                = Inr inc
           \<and> ownershipTotal inc = NaN \<and> validateOwnership inc = Inr ()
           \<and> \<not> ownership_conserved inc)
    \<and> (rounds c = [] \<or> \<not> optionPoolTopUp c \<longrightarrow>
         (\<exists>stages. calculateEvolution now c = Inr stages \<and> stages \<noteq> []
            \<and> (\<forall>s\<in>set stages. ownershipTotal s = NaN \<and> \<not> ownership_conserved s)))
    \<and> (rounds c \<noteq> [] \<and> optionPoolTopUp c \<longrightarrow>
         (\<exists>m. calculateEvolution now c = Inl (CalculationError ''cap_table_evolution'' m)))"
proof -
  from assms(1) obtain f where f: "founderShares c = Num f" "1 \<le> f"
    using valid_founderShares by blast
  have pool: "getInitialOptionPoolShares c = PInf"
    using f assms(2) by (rule full_pool_shares)
  have inc: "\<exists>inc. createIncorporationStage now (Num f) PInf z = Inr inc
      \<and> ownershipTotal inc = NaN \<and> validateOwnership inc = Inr ()
      \<and> \<not> ownership_conserved inc" for z
  proof -
    from full_pool_incorporation [OF f(2), of now z] obtain inc
      where i: "createIncorporationStage now (Num f) PInf z = Inr inc"
        "founderOwnership inc = Num 0" "optionPoolOwnership inc = NaN"
        "investorOwnership inc = Num 0"
      by blast
    then have "ownershipTotal inc = NaN" by (simp add: ownershipTotal_def)
    with i(1) show ?thesis
      using NaN_total_passes NaN_total_not_conserved by blast
  qed
  have completes: "\<exists>stages. calculateEvolution now c = Inr stages \<and> stages \<noteq> []
      \<and> (\<forall>s\<in>set stages. ownershipTotal s = NaN \<and> \<not> ownership_conserved s)"
    if "rounds c = [] \<or> \<not> optionPoolTopUp c"
  proof -
    let ?rs = "getRoundsByYear c"
    let ?y = "case ?rs of [] \<Rightarrow> None | r # _ \<Rightarrow> Some (year r)"
    from inc [of ?y] obtain inc0
      where i: "createIncorporationStage now (Num f) PInf ?y = Inr inc0"
        "ownershipTotal inc0 = NaN"
      by blast
    have "\<exists>stages. processRounds now c (Num f) PInf (Num 0) [inc0] ?rs = Inr stages
        \<and> (\<forall>s\<in>set stages. ownershipTotal s = NaN)"
    proof (cases "rounds c = []")
      case True
      then have "?rs = []" by (simp add: getRoundsByYear_def sortBy_def)
      with i(2) show ?thesis by simp
    next
      case False
      with that have "\<not> optionPoolTopUp c" by simp
      moreover have "\<forall>r\<in>set ?rs. \<exists>p i. preMoneyValuation r = Num p \<and> 1 \<le> p
          \<and> investment r = Num i \<and> 1 \<le> i"
        using valid_round [OF assms(1)] by (simp add: getRoundsByYear_def set_sortBy)
      ultimately show ?thesis
        using f(2) i(2) by (intro processRounds_full_pool) simp_all
    qed
    then obtain stages
      where s: "processRounds now c (Num f) PInf (Num 0) [inc0] ?rs = Inr stages"
        "\<forall>s\<in>set stages. ownershipTotal s = NaN"
      by blast
    have "calculateEvolution now c = Inr stages"
      using assms(1) pool f(1) i(1) s(1)
      by (simp add: calculateEvolution_def evolutionBody_def Let_def)
    moreover from this have "stages \<noteq> []"
      using calculateEvolution_nonempty by blast
    ultimately show ?thesis
      using s(2) NaN_total_not_conserved by blast
  qed
  have raises: "\<exists>m. calculateEvolution now c = Inl (CalculationError ''cap_table_evolution'' m)"
    if "rounds c \<noteq> [] \<and> optionPoolTopUp c"
  proof -
    from that have "set (getRoundsByYear c) \<noteq> {}"
      by (simp add: getRoundsByYear_def set_sortBy)
    then obtain r rs where rs: "getRoundsByYear c = r # rs"
      by (cases "getRoundsByYear c") auto
    then have "r \<in> set (rounds c)"
      by (metis getRoundsByYear_def list.set_intros(1) set_sortBy)
    from valid_round [OF assms(1) this] obtain p i
      where rv: "preMoneyValuation r = Num p" "1 \<le> p" "investment r = Num i" "1 \<le> i"
      by blast
    from full_pool_incorporation [OF f(2), of now "Some (year r)"] obtain inc0
      where inc0: "createIncorporationStage now (Num f) PInf (Some (year r)) = Inr inc0"
      by blast
    from that have "optionPoolTopUp c" by simp
    from full_pool_top_up_rejected [OF this assms(2) f(2) rv, of now inc0] obtain e
      where "processRound now r (Num f) PInf (Num 0) c inc0 = Inl e"
      by blast
    then have "evolutionBody now c = Inl e"
      using assms(1) rs f(1) pool inc0 by (simp add: evolutionBody_def Let_def)
    then show ?thesis by (simp add: calculateEvolution_def)
  qed
  from pool inc [of y] f(1) completes raises show ?thesis by simp
qed

theorem full_option_pool_outcome_witness:
  "validate fullPoolNoTopUp = Inr () \<and> optionPoolPercent fullPoolNoTopUp = Num 100
   \<and> rounds fullPoolNoTopUp \<noteq> [] \<and> \<not> optionPoolTopUp fullPoolNoTopUp
   \<and> getInitialOptionPoolShares fullPoolNoTopUp = PInf
   \<and> (\<exists>stages. calculateEvolution 2026 fullPoolNoTopUp = Inr stages \<and> stages \<noteq> []
        \<and> list_all (\<lambda>s. ownershipTotal s = NaN) stages)
   \<and> validate fullPoolCompany = Inr () \<and> optionPoolPercent fullPoolCompany = Num 100
   \<and> rounds fullPoolCompany = []
   \<and> (\<exists>stages. calculateEvolution 2026 fullPoolCompany = Inr stages \<and> stages \<noteq> []
        \<and> list_all (\<lambda>s. ownershipTotal s = NaN) stages)
   \<and> validate fullPoolTopUp = Inr () \<and> optionPoolPercent fullPoolTopUp = Num 100
   \<and> rounds fullPoolTopUp \<noteq> [] \<and> optionPoolTopUp fullPoolTopUp
   \<and> (\<exists>m. calculateEvolution 2026 fullPoolTopUp =
         Inl (CalculationError ''cap_table_evolution'' m))"
proof -
  have v1: "validate fullPoolNoTopUp = Inr ()"
    by (rule validate_fullPoolNoTopUp)
  have p1: "optionPoolPercent fullPoolNoTopUp = Num 100" "rounds fullPoolNoTopUp \<noteq> []"
    "\<not> optionPoolTopUp fullPoolNoTopUp"
    by (simp_all add: fullPoolNoTopUp_def scenarioCompany_def)
  have v2: "validate fullPoolCompany = Inr ()"
    by (rule validate_fullPoolCompany)
  have p2: "optionPoolPercent fullPoolCompany = Num 100" "rounds fullPoolCompany = []"
    by (simp_all add: fullPoolCompany_def)
  have v3: "validate fullPoolTopUp = Inr ()"
    by (rule validate_fullPoolTopUp)
  have p3: "optionPoolPercent fullPoolTopUp = Num 100" "rounds fullPoolTopUp \<noteq> []"
    "optionPoolTopUp fullPoolTopUp"
    by (simp_all add: fullPoolTopUp_def scenarioCompany_def)
  from full_option_pool_outcome [OF v1 p1(1), of 2026 None]
    full_option_pool_outcome [OF v2 p2(1), of 2026 None]
    full_option_pool_outcome [OF v3 p3(1), of 2026 None]
    v1 p1 v2 p2 v3 p3
  show ?thesis
    by (auto simp add: list_all_iff)
qed
subsection \<open>What validation reports (C3)\<close>

lemma validateRounds_first:
  assumes "i < length rs" and "roundErrors (rs ! i) \<noteq> []"
    and "\<forall>j<i. roundErrors (rs ! j) = []"
  shows "validateRounds k rs = Inl (ValidationError (''Round '' @ show_nat (k + i + 1))
           (ValidationErrorsIn (length (roundErrors (rs ! i))) (type (rs ! i))) NoValue)"
  using assms
proof (induction rs arbitrary: k i)
  case Nil
  then show ?case by simp
next
  case (Cons r rs)
  show ?case
  proof (cases i)
    case 0
    with Cons.prems show ?thesis
      by (simp add: validateFundingRound_def Let_def)
  next
    case (Suc i')
    with Cons.prems have r: "roundErrors r = []" by auto
    from Suc Cons.prems have "i' < length rs" "roundErrors (rs ! i') \<noteq> []"
      "\<forall>j<i'. roundErrors (rs ! j) = []" by auto
    from Cons.IH [OF this, of "k + 1"] r Suc show ?thesis
      by (simp add: validateFundingRound_def Let_def)
  qed
qed

text \<open>
  C3 as stated fails. The company without a name whose round has the type Angel has two
  violations; \<open>validate\<close> raises the aggregate of the company's own fields, which lists
  the missing name and nowhere mentions the round's type. The company with two bad
  rounds has two violations; \<open>validate\<close> raises an error for round 1 that lists nothing.
\<close>

theorem validate_not_exhaustive:
  "allViolations namelessCompany =
     [ValidationError ''Company Name'' (IsRequired ''Company Name'') NoValue,
      ValidationError ''Round Type'' (InvalidRoundType ''Angel'') (Value (Str ''Angel''))]
   \<and> validate namelessCompany =
       Inl (ValidationError ''Company Data'' (ValidationErrors 1)
         (Errors [ValidationError ''Company Name'' (IsRequired ''Company Name'') NoValue]))
   \<and> mentioned (ValidationError ''Company Data'' (ValidationErrors 1)
         (Errors [ValidationError ''Company Name'' (IsRequired ''Company Name'') NoValue]))
       = [ValidationError ''Company Name'' (IsRequired ''Company Name'') NoValue]
   \<and> allViolations twoBadRounds =
       [ValidationError ''Round Type'' (InvalidRoundType ''Angel'') (Value (Str ''Angel'')),
        ValidationError ''Round Year'' (MustBeAtLeast ''Round Year'' (Num 2020))
          (Value (Number (Num 1999)))]
   \<and> validate twoBadRounds =
       Inl (ValidationError ''Round 1'' (ValidationErrorsIn 1 (Some ''Angel'')) NoValue)
   \<and> mentioned (ValidationError ''Round 1'' (ValidationErrorsIn 1 (Some ''Angel'')) NoValue) = []
   \<and> \<not> set (allViolations namelessCompany)
         \<subseteq> (case validate namelessCompany of Inl e \<Rightarrow> set (mentioned e) | Inr u \<Rightarrow> {})
   \<and> \<not> set (allViolations twoBadRounds)
         \<subseteq> (case validate twoBadRounds of Inl e \<Rightarrow> set (mentioned e) | Inr u \<Rightarrow> {})"
  by (simp add: allViolations_def validation_defs namelessCompany_def twoBadRounds_def
      scenarioCompany_def seedRound_def)

text \<open>
  C3, amended. \<open>validateCompanyData\<close> lists every violation of the company's own fields,
  and \<open>validateFundingRound\<close> every violation of one round. \<open>validate\<close> raises the first of
  these that there is: the aggregate of the company's own fields if one of them is
  violated, whatever the rounds are; otherwise an error for the first round with a
  violation, in the order of \<open>company.rounds\<close>, that is named after the round's position
  and carries the number of that round's violations in its message and no list. It
  accepts a company without violations.
\<close>

theorem validate_reports:
  "(companyErrors c \<noteq> [] \<longrightarrow>
      validate c = Inl (ValidationError ''Company Data''
        (ValidationErrors (length (companyErrors c))) (Errors (companyErrors c))))
   \<and> (roundErrors r \<noteq> [] \<longrightarrow>
      validateFundingRound r = Inl (ValidationError ''Funding Round''
        (ValidationErrorsIn (length (roundErrors r)) (type r)) (Errors (roundErrors r))))
   \<and> (companyErrors c = [] \<and> i < length (rounds c) \<and> roundErrors (rounds c ! i) \<noteq> []
        \<and> (\<forall>j<i. roundErrors (rounds c ! j) = []) \<longrightarrow>
      validate c = Inl (ValidationError (''Round '' @ show_nat (i + 1))
        (ValidationErrorsIn (length (roundErrors (rounds c ! i))) (type (rounds c ! i)))
        NoValue))
   \<and> (allViolations c = [] \<longrightarrow> validate c = Inr ())"
proof (intro conjI impI)
  assume "companyErrors c \<noteq> []"
  then show "validate c = Inl (ValidationError ''Company Data''
      (ValidationErrors (length (companyErrors c))) (Errors (companyErrors c)))"
    by (simp add: validate_def validateCompanyData_def Let_def)
next
  assume "roundErrors r \<noteq> []"
  then show "validateFundingRound r = Inl (ValidationError ''Funding Round''
      (ValidationErrorsIn (length (roundErrors r)) (type r)) (Errors (roundErrors r)))"
    by (simp add: validateFundingRound_def Let_def)
next
  assume a: "companyErrors c = [] \<and> i < length (rounds c) \<and> roundErrors (rounds c ! i) \<noteq> []
      \<and> (\<forall>j<i. roundErrors (rounds c ! j) = [])"
  then have "validateCompanyData c = Inr ()"
    by (simp add: validateCompanyData_ok)
  moreover from a have "validateRounds 0 (rounds c) =
      Inl (ValidationError (''Round '' @ show_nat (0 + i + 1))
        (ValidationErrorsIn (length (roundErrors (rounds c ! i))) (type (rounds c ! i))) NoValue)"
    by (intro validateRounds_first) auto
  ultimately show "validate c = Inl (ValidationError (''Round '' @ show_nat (i + 1))
      (ValidationErrorsIn (length (roundErrors (rounds c ! i))) (type (rounds c ! i))) NoValue)"
    by (simp add: validate_def)
next
  assume "allViolations c = []"
  then show "validate c = Inr ()"
    by (simp add: validate_ok allViolations_def)
qed

theorem validate_reports_witness:
  "validate namelessCompany =
     Inl (ValidationError ''Company Data'' (ValidationErrors 1)
       (Errors [ValidationError ''Company Name'' (IsRequired ''Company Name'') NoValue]))
   \<and> validate twoBadRounds =
       Inl (ValidationError ''Round 1'' (ValidationErrorsIn 1 (Some ''Angel'')) NoValue)
   \<and> validateFundingRound (seedRound\<lparr> type := Some ''Angel'', year := Num 1999 \<rparr>) =
       Inl (ValidationError ''Funding Round'' (ValidationErrorsIn 2 (Some ''Angel''))
         (Errors
           [ValidationError ''Round Type'' (InvalidRoundType ''Angel'') (Value (Str ''Angel'')),
            ValidationError ''Round Year'' (MustBeAtLeast ''Round Year'' (Num 2020))
              (Value (Number (Num 1999)))]))
   \<and> validate scenarioCompany = Inr ()"
proof -
  have n: "companyErrors namelessCompany =
      [ValidationError ''Company Name'' (IsRequired ''Company Name'') NoValue]"
    by (simp add: validation_defs namelessCompany_def scenarioCompany_def)
  have t: "companyErrors twoBadRounds = []"
    by (simp add: validation_defs twoBadRounds_def scenarioCompany_def)
  have r0: "roundErrors (rounds twoBadRounds ! 0) =
      [ValidationError ''Round Type'' (InvalidRoundType ''Angel'') (Value (Str ''Angel''))]"
    by (simp add: validation_defs twoBadRounds_def scenarioCompany_def seedRound_def)
  have r: "roundErrors (seedRound\<lparr> type := Some ''Angel'', year := Num 1999 \<rparr>) =
      [ValidationError ''Round Type'' (InvalidRoundType ''Angel'') (Value (Str ''Angel'')),
       ValidationError ''Round Year'' (MustBeAtLeast ''Round Year'' (Num 2020))
         (Value (Number (Num 1999)))]"
    by (simp add: validation_defs seedRound_def)
  have ty: "type (rounds twoBadRounds ! 0) = Some ''Angel''"
    "length (rounds twoBadRounds) = 2"
    by (simp_all add: twoBadRounds_def scenarioCompany_def seedRound_def)
  have s: "allViolations scenarioCompany = []"
    by (simp add: allViolations_def scenarioCompany_errors)
      (simp add: scenarioCompany_def seedRound_errors)
  show ?thesis
    using validate_reports [of namelessCompany "seedRound\<lparr> type := Some ''Angel'', year := Num 1999 \<rparr>" 0]
      validate_reports [of twoBadRounds seedRound 0]
      validate_reports [of scenarioCompany seedRound 0]
    by (simp add: n t r0 r ty s)
qed

subsection \<open>Shares and the liquidation stack across the stages (C5, C6)\<close>



text \<open>
  C6. For every company that \<open>calculateEvolution\<close> accepts and every two consecutive
  stages, the liquidation stack of the later stage is that of the earlier stage with one
  entry added at the end: every earlier entry, and so its \<open>ownershipPercent\<close>, is where
  it was and is unchanged.
\<close>

theorem stack_append_only:
  assumes "calculateEvolution now c = Inr stages" and "Suc i < length stages"
  shows "(\<exists>e. liquidationStack (stages ! Suc i) = liquidationStack (stages ! i) @ [e])
    \<and> length (liquidationStack (stages ! Suc i)) = Suc (length (liquidationStack (stages ! i)))
    \<and> (\<forall>j<length (liquidationStack (stages ! i)).
          liquidationStack (stages ! Suc i) ! j = liquidationStack (stages ! i) ! j
          \<and> ownershipPercent_e (liquidationStack (stages ! Suc i) ! j)
              = ownershipPercent_e (liquidationStack (stages ! i) ! j))"
proof -
  from calculateEvolution_Inr [OF assms(1)] obtain inc
    where "processRounds now c (founderShares c) (getInitialOptionPoolShares c) (Num 0) [inc]
            (getRoundsByYear c) = Inr stages"
    by blast
  then have "successively (\<lambda>prev s. \<exists>e. liquidationStack s = liquidationStack prev @ [e]) stages
      \<and> (\<forall>s\<in>set stages. True)"
    by (rule processRounds_invariant [where I = "\<lambda>_ _ _. True", rotated])
      (simp_all add: processRound_result(5))
  with assms(2) obtain e
    where "liquidationStack (stages ! Suc i) = liquidationStack (stages ! i) @ [e]"
    by (auto simp add: successively_nth)
  then show ?thesis by (simp add: nth_append)
qed

theorem stack_append_only_witness:
  "calculateEvolution 2026 twoRoundCompany = Inr [incorporationStage, seedStage, seriesAStage]
   \<and> liquidationStack seedStage = liquidationStack incorporationStage @ [seedEntry]
   \<and> liquidationStack seriesAStage = liquidationStack seedStage @ [seriesAEntry]
   \<and> ownershipPercent_e (liquidationStack seriesAStage ! 0)
       = ownershipPercent_e (liquidationStack seedStage ! 0)"
proof -
  have e: "calculateEvolution 2026 twoRoundCompany =
      Inr [incorporationStage, seedStage, seriesAStage]"
    by (rule twoRound_stages)
  have "Suc 1 < length [incorporationStage, seedStage, seriesAStage]" by simp
  from stack_append_only [OF e this]
  have "ownershipPercent_e (liquidationStack seriesAStage ! 0)
      = ownershipPercent_e (liquidationStack seedStage ! 0)"
    by (simp add: seedStage_def)
  with e show ?thesis
    by (simp add: incorporationStage_def seedStage_def seriesAStage_def)
qed

subsection \<open>Anti-dilution and discount rate (C9)\<close>

lemma withoutRound_eq:
  assumes "withoutRound s' = withoutRound s"
  shows "totalShares s' = totalShares s \<and> founderShares_st s' = founderShares_st s
    \<and> optionPoolShares s' = optionPoolShares s \<and> investorShares s' = investorShares s
    \<and> newInvestorShares s' = newInvestorShares s
    \<and> founderOwnership s' = founderOwnership s
    \<and> optionPoolOwnership s' = optionPoolOwnership s
    \<and> investorOwnership s' = investorOwnership s
    \<and> newInvestorOwnership s' = newInvestorOwnership s
    \<and> liquidationStack s' = liquidationStack s"
proof -
  have "f (withoutRound s') = f (withoutRound s)" for f :: "CapTableStage \<Rightarrow> 'a"
    using assms by simp
  from this [of totalShares] this [of founderShares_st] this [of optionPoolShares]
    this [of investorShares] this [of newInvestorShares] this [of founderOwnership]
    this [of optionPoolOwnership] this [of investorOwnership] this [of newInvestorOwnership]
    this [of liquidationStack]
  show ?thesis by (simp add: withoutRound_def)
qed

text \<open>
  C9. If two companies differ only in the anti-dilution provisions and discount rates
  of their rounds and \<open>calculateEvolution\<close> accepts one, it accepts the other, and the two
  stage sequences are equal but for the stages' references to their rounds: in every
  stage the share counts (total, founder, option-pool, investor, new-investor), the
  ownership percentages and the liquidation stack, with its \<open>ownershipPercent\<close> values,
  are the same.
\<close>

theorem terms_not_applied:
  assumes "differ_only_in_terms c c'" and "calculateEvolution now c = Inr stages"
  shows "\<exists>stages'. calculateEvolution now c' = Inr stages'
    \<and> length stages' = length stages
    \<and> map withoutRound stages' = map withoutRound stages
    \<and> (\<forall>i<length stages.
          totalShares (stages' ! i) = totalShares (stages ! i)
          \<and> founderShares_st (stages' ! i) = founderShares_st (stages ! i)
          \<and> optionPoolShares (stages' ! i) = optionPoolShares (stages ! i)
          \<and> investorShares (stages' ! i) = investorShares (stages ! i)
          \<and> newInvestorShares (stages' ! i) = newInvestorShares (stages ! i)
          \<and> founderOwnership (stages' ! i) = founderOwnership (stages ! i)
          \<and> optionPoolOwnership (stages' ! i) = optionPoolOwnership (stages ! i)
          \<and> investorOwnership (stages' ! i) = investorOwnership (stages ! i)
          \<and> newInvestorOwnership (stages' ! i) = newInvestorOwnership (stages ! i)
          \<and> liquidationStack (stages' ! i) = liquidationStack (stages ! i))"
proof -
  from assms(1) have "map_sum id (map withoutRound) (calculateEvolution now c')
      = map_sum id (map withoutRound) (calculateEvolution now c)"
    using calculateEvolution_erased [of now c] calculateEvolution_erased [of now c']
    by (simp add: differ_only_in_terms_def)
  with assms(2) obtain stages' where s: "calculateEvolution now c' = Inr stages'"
    and m: "map withoutRound stages' = map withoutRound stages"
    by (cases "calculateEvolution now c'") simp_all
  from m have l: "length stages' = length stages"
    by (metis length_map)
  have "withoutRound (stages' ! i) = withoutRound (stages ! i)" if "i < length stages" for i
    using m l that by (metis nth_map)
  then show ?thesis
    using s l m withoutRound_eq by blast
qed

theorem terms_not_applied_witness:
  "differ_only_in_terms twoRoundCompany otherTermsCompany
   \<and> calculateEvolution 2026 twoRoundCompany = Inr [incorporationStage, seedStage, seriesAStage]
   \<and> (\<exists>stages'. calculateEvolution 2026 otherTermsCompany = Inr stages'
        \<and> map withoutRound stages'
            = map withoutRound [incorporationStage, seedStage, seriesAStage])"
proof -
  have d: "differ_only_in_terms twoRoundCompany otherTermsCompany"
    by (simp add: differ_only_in_terms_def eraseCompanyTerms_def eraseTerms_def
        twoRoundCompany_def otherTermsCompany_def)
  have e: "calculateEvolution 2026 twoRoundCompany =
      Inr [incorporationStage, seedStage, seriesAStage]"
    by (rule twoRound_stages)
  from terms_not_applied [OF d e] d e show ?thesis by blast
qed

subsection \<open>The sensitivity scenarios leave the company as it was (C8)\<close>

text \<open>
  C8. After \<open>calculateSensitivityScenarios\<close>, whether it returns results or raises,
  every object that existed before the call holds what it held: in particular the
  company passed in has the same fields and the same rounds, and each of its rounds has
  the same fields, the pre-money valuation among them. The scenarios assign only to
  rounds of companies created during the call.
\<close>

theorem sensitivity_isolation:
  assumes "wf_company h company"
    and "calculateSensitivityScenarios now h company roundIndex scenarios = (h', result)"
  shows "(\<forall>a<length h. h' ! a = h ! a)
    \<and> getCompany h' company = getCompany h company
    \<and> (\<forall>ra\<in>set (rounds (the (getCompany h company))). getRound h' ra = getRound h ra)
    \<and> toObject h' company = toObject h company"
proof -
  note b = wf_company_bounds [OF assms(1)]
  from sensitivity_heap [OF b(1) assms(2)]
  have p: "take (length h) h' = h" by simp
  have a: "\<forall>a<length h. h' ! a = h ! a"
    using p by (metis nth_take)
  have c: "getCompany h' company = getCompany h company"
    using p b(1) by (rule getCompany_prefix)
  have r: "\<forall>ra\<in>set (rounds (the (getCompany h company))). getRound h' ra = getRound h ra"
    using p b(2) getCompany_prefix(2) by blast
  have "toObject h' company = toObject h company"
    using c r by (simp add: toObject_def Let_def)
  with a c r show ?thesis by simp
qed

theorem sensitivity_isolation_witness:
  "wf_company scenarioHeap 1
   \<and> toObject scenarioHeap 1 = scenarioCompany
   \<and> toObject (fst (calculateSensitivityScenarios 2026 scenarioHeap 1 0 SCENARIOS)) 1
       = scenarioCompany
   \<and> getRound (fst (calculateSensitivityScenarios 2026 scenarioHeap 1 0 SCENARIOS)) 0
       = Some seedRound"
proof -
  have w: "wf_company scenarioHeap 1"
    by (simp add: wf_company_def scenarioHeap_def getCompany_def getRound_def)
  have t: "toObject scenarioHeap 1 = scenarioCompany"
    by (simp add: toObject_def scenarioHeap_def getCompany_def getRound_def scenarioCompany_def)
  have r: "getRound scenarioHeap 0 = Some seedRound"
    "rounds (the (getCompany scenarioHeap 1)) = [0]"
    by (simp_all add: scenarioHeap_def getCompany_def getRound_def)
  have c: "calculateSensitivityScenarios 2026 scenarioHeap 1 0 SCENARIOS =
      (fst (calculateSensitivityScenarios 2026 scenarioHeap 1 0 SCENARIOS),
       snd (calculateSensitivityScenarios 2026 scenarioHeap 1 0 SCENARIOS))"
    by simp
  from sensitivity_isolation [OF w c] w t r show ?thesis by simp
qed

text \<open>
  What one scenario does in that heap: it adds a copy of the round, with the scenario's
  pre-money valuation, and a company that holds the copy.
\<close>

lemma runScenario_scenarioHeap:
  "fst (runScenario now scenarioHeap 1 0 0 sc) = scenarioHeap @
     [RoundObject (seedRound\<lparr> preMoneyValuation := js_mul (Num 5000000) (multiplier sc) \<rparr>),
      CompanyObject
        \<lparr> companyName = ''Acme'', currency = ''GBP'', founderShares = Num 10000000,
          optionPoolPercent = Num 20, optionPoolTopUp = True, useRevenueMultiples = True,
          exitYear = Num 2030, exitValuation = Num 50000000, exitMultiple = Num 5,
          rounds = [2] \<rparr>]"
proof -
  have t: "toObject scenarioHeap 1 = scenarioCompany"
    by (simp add: toObject_def scenarioHeap_def getCompany_def getRound_def scenarioCompany_def)
  have n: "new_Company now scenarioHeap scenarioCompany = (scenarioHeap @
     [RoundObject seedRound,
      CompanyObject
        \<lparr> companyName = ''Acme'', currency = ''GBP'', founderShares = Num 10000000,
          optionPoolPercent = Num 20, optionPoolTopUp = True, useRevenueMultiples = True,
          exitYear = Num 2030, exitValuation = Num 50000000, exitMultiple = Num 5,
          rounds = [2] \<rparr>], 3)"
    by (simp add: new_Company_def alloc_def scenarioCompany_def scenarioHeap_def
        new_FundingRound_def seedRound_def js_or_def truthy_def str_or_def
        DEFAULT_REVENUE_def DEFAULT_DISCOUNT_RATE_def)
  show ?thesis
    unfolding runScenario_def t n
    by (simp add: scenarioHeap_def getCompany_def getRound_def set_preMoneyValuation_def
        seedRound_def Let_def)
qed

subsection \<open>Ownership conservation below 100 percent, in exact arithmetic\<close>

text \<open>
  In exact arithmetic, for every company that \<open>calculateEvolution\<close> accepts and whose
  option-pool percentage is not 100, every share count is finite and in every stage the
  founder, option-pool and investor percentages sum to within 0.1 of 100. (In binary64
  arithmetic a share count can also become \<open>+Infinity\<close> by overflow, after enough rounds
  at a high investor percentage; the statement does not cover that.)
\<close>

theorem ownership_conserved_below_full_pool:
  assumes "calculateEvolution now c = Inr stages" and "optionPoolPercent c \<noteq> Num 100"
  shows "\<forall>s\<in>set stages. ownership_conserved s"
proof -
  from calculateEvolution_Inr [OF assms(1)] obtain inc y
    where v: "validate c = Inr ()"
      and inc: "createIncorporationStage now (founderShares c) (getInitialOptionPoolShares c) y
          = Inr inc"
      and loop: "processRounds now c (founderShares c) (getInitialOptionPoolShares c) (Num 0)
          [inc] (getRoundsByYear c) = Inr stages"
    by blast
  from valid_founderShares [OF v] obtain f where f: "founderShares c = Num f" "1 \<le> f"
    by blast
  from valid_optionPoolPercent [OF v] obtain q
    where q: "optionPoolPercent c = Num q" "0 \<le> q" "q \<le> 100"
    by blast
  from q(1) assms(2) have "q \<noteq> 100" by simp
  then have pool: "is_finite (getInitialOptionPoolShares c)"
    unfolding getInitialOptionPoolShares_def f(1) q(1) by (rule finite_initial_pool)
  have fs: "is_finite (founderShares c)" using f by simp
  have qf: "is_finite (optionPoolPercent c)" using q by simp
  let ?I = "\<lambda>ops tis (prev :: CapTableStage). is_finite ops \<and> is_finite tis"
  have "successively (\<lambda>_ _. True) stages \<and> (\<forall>s\<in>set stages. ownership_conserved s)"
  proof (rule processRounds_invariant [where I = ?I, OF _ loop])
    show "[inc] \<noteq> []" by simp
    show "?I (getInitialOptionPoolShares c) (Num 0) (last [inc])" using pool by simp
    show "successively (\<lambda>_ _. True) [inc]" by simp
    show "\<forall>s\<in>set [inc]. ownership_conserved s"
      using createIncorporationStage_finite [OF inc fs pool] by simp
  next
    fix r ops tis prev s
    assume r: "r \<in> set (getRoundsByYear c)" and I: "?I ops tis prev"
      and s: "processRound now r (founderShares c) ops tis c prev = Inr s"
    from r have "r \<in> set (rounds c)" by (simp add: getRoundsByYear_def set_sortBy)
    from valid_round [OF v this] obtain p i
      where rv: "preMoneyValuation r = Num p" "1 \<le> p" "investment r = Num i" "1 \<le> i"
      by blast
    from I have "is_finite ops" "is_finite tis" by simp_all
    from processRound_finite [OF s fs this qf rv]
    show "True \<and> ownership_conserved s \<and> ?I (optionPoolShares s) (investorShares s) s"
      by simp
  qed
  then show ?thesis by simp
qed

theorem ownership_conserved_below_full_pool_witness:
  "calculateEvolution 2026 twoRoundCompany = Inr [incorporationStage, seedStage, seriesAStage]
   \<and> optionPoolPercent twoRoundCompany \<noteq> Num 100
   \<and> ownership_conserved incorporationStage \<and> ownership_conserved seedStage
   \<and> ownership_conserved seriesAStage"
proof -
  have e: "calculateEvolution 2026 twoRoundCompany =
      Inr [incorporationStage, seedStage, seriesAStage]"
    by (rule twoRound_stages)
  have p: "optionPoolPercent twoRoundCompany \<noteq> Num 100"
    by (simp add: twoRoundCompany_def scenarioCompany_def)
  from ownership_conserved_below_full_pool [OF e p] e p show ?thesis by simp
qed

end
